theory Spec2Isabelle
  imports Complex_Main "HOL-Library.Word" "HOL-Library.Code_Target_Numeral"
begin

unbundle bit_operations_syntax

section \<open>Numbers and shared data\<close>

text \<open>
  The program is JavaScript; its numbers are IEEE doubles.  They are modelled as
  \<^typ>\<open>real\<close>: finite values with exact arithmetic.  \<open>NaN\<close> and the infinities are
  outside the model, so a division is only meaningful where the divisor is nonzero
  (each theorem that depends on one says so).  Every \<open>Math.random()\<close> draw is an
  explicit argument; the source guarantees \<open>0 \<le> r < 1\<close> for it.

  The colour blending of \<open>utils.js\<close> truncates its results with \<open>Math.floor\<close> and prints
  them digit by digit, so there the rounding of every operation shows in the result.
  That arithmetic is modelled with the rounding of binary64, defined next.
\<close>

definition is_random :: "real \<Rightarrow> bool" where
  "is_random r \<longleftrightarrow> 0 \<le> r \<and> r < 1"

subsection \<open>Rounding to a double\<close>

text \<open>\<open>pow2 k\<close> is \<open>2\<close> to the power \<open>k\<close>, for an exponent of either sign.\<close>

definition pow2 :: "int \<Rightarrow> real" where
  "pow2 k = (if 0 \<le> k then 2 ^ nat k else 1 / 2 ^ nat (- k))"

text \<open>
  The binary exponent of a positive number, the \<open>e\<close> with \<open>2 ^ e \<le> x < 2 ^ (e + 1)\<close>,
  found by halving or doubling \<open>x\<close> until it lies in \<open>[1, 2)\<close>.
\<close>

function binade :: "real \<Rightarrow> int" where
  "binade x = (if 2 \<le> x then binade (x / 2) + 1
               else if 0 < x \<and> x < 1 then binade (x * 2) - 1
               else 0)"
  by pat_completeness auto

termination
proof (relation "measure (\<lambda>x. nat \<bar>\<lfloor>log 2 x\<rfloor>\<bar>)")
  show "wf (measure (\<lambda>x. nat \<bar>\<lfloor>log 2 x\<rfloor>\<bar>))" by simp
next
  fix x :: real
  assume x: "2 \<le> x"
  then have l: "1 \<le> log 2 x" by (simp add: le_log_iff)
  have "log 2 (x / 2) = log 2 x - 1" using x by (simp add: log_divide)
  then have "\<lfloor>log 2 (x / 2)\<rfloor> = \<lfloor>log 2 x\<rfloor> - 1" by simp
  moreover have "1 \<le> \<lfloor>log 2 x\<rfloor>" using l by (simp add: le_floor_iff)
  ultimately show "(x / 2, x) \<in> measure (\<lambda>x. nat \<bar>\<lfloor>log 2 x\<rfloor>\<bar>)" by simp
next
  fix x :: real
  assume "\<not> 2 \<le> x" and x: "0 < x \<and> x < 1"
  then have l: "log 2 x < 0" by simp
  have "log 2 (x * 2) = log 2 x + 1" using x by (simp add: log_mult)
  then have "\<lfloor>log 2 (x * 2)\<rfloor> = \<lfloor>log 2 x\<rfloor> + 1" by simp
  moreover have "\<lfloor>log 2 x\<rfloor> \<le> - 1" using l by (simp add: floor_le_iff)
  ultimately show "(x * 2, x) \<in> measure (\<lambda>x. nat \<bar>\<lfloor>log 2 x\<rfloor>\<bar>)" by simp
qed

declare binade.simps [simp del]

text \<open>The nearest integer; a number half-way between two integers goes to the even one.\<close>

definition round_half_even :: "real \<Rightarrow> int" where
  "round_half_even x =
     (let n = \<lfloor>x\<rfloor>; d = x - of_int n
      in if d < 1 / 2 then n else if 1 / 2 < d then n + 1 else if even n then n else n + 1)"

text \<open>
  The double nearest to a real number (round to nearest, ties to even).  A double
  carries 53 significant bits, so between \<open>2 ^ e\<close> and \<open>2 ^ (e + 1)\<close> the doubles are
  the multiples of \<open>2 ^ (e - 52)\<close>; below \<open>2 ^ (- 1022)\<close>, the subnormal range, the
  spacing stays \<open>2 ^ (- 1074)\<close>.  Overflow to an infinity is outside the model.
\<close>

definition to_double :: "real \<Rightarrow> real" where
  "to_double x =
     (if x = 0 then 0
      else let e = max (binade \<bar>x\<bar>) (- 1022);
               u = pow2 (e - 52)
           in of_int (round_half_even (x / u)) * u)"

text \<open>The arithmetic operations on doubles: the exact result, rounded.\<close>

definition dbl_add :: "real \<Rightarrow> real \<Rightarrow> real" where
  "dbl_add a b = to_double (a + b)"

definition dbl_sub :: "real \<Rightarrow> real \<Rightarrow> real" where
  "dbl_sub a b = to_double (a - b)"

definition dbl_mul :: "real \<Rightarrow> real \<Rightarrow> real" where
  "dbl_mul a b = to_double (a * b)"

subsection \<open>Shared data\<close>

text \<open>The fields of \<open>gameParams\<close> that the simulation core reads.\<close>

record game_params =
  ballSpeed :: real
  ballSize :: real
  paddleSize :: real
  paddleWidth :: real
  paddleSpeed :: real
  fieldWidth :: real
  fieldHeight :: real
  ballGravityX :: real
  ballGravityY :: real
  multiball :: bool
  trailEffect :: bool
  screenShake :: bool
  invertControls :: bool
  ballColor :: string
  paddleColor :: string
  backgroundColor :: string
  fieldBorderColor :: string

record canvas =
  canvas_width :: real
  canvas_height :: real

record field_rect =
  field_x :: real
  field_y :: real
  field_width :: real
  field_height :: real

text \<open>JavaScript \<open>v || d\<close> on a number: \<open>0\<close> is falsy.\<close>

definition num_or :: "real \<Rightarrow> real \<Rightarrow> real" where
  "num_or v d = (if v = 0 then d else v)"

text \<open>The same on a property that may be \<open>undefined\<close>.\<close>

definition opt_or :: "real option \<Rightarrow> real \<Rightarrow> real" where
  "opt_or v d = (case v of None \<Rightarrow> d | Some n \<Rightarrow> num_or n d)"

text \<open>On a string: the empty string is falsy.\<close>

definition str_or :: "string \<Rightarrow> string \<Rightarrow> string" where
  "str_or v d = (if v = [] then d else v)"

section \<open>utils.js\<close>

definition getFieldOffset :: "canvas \<Rightarrow> game_params \<Rightarrow> field_rect" where
  "getFieldOffset cv gp =
     (let fieldWidth' = canvas_width cv * fieldWidth gp;
          fieldHeight' = canvas_height cv * fieldHeight gp;
          offsetX = (canvas_width cv - fieldWidth') / 2;
          offsetY = (canvas_height cv - fieldHeight') / 2
      in \<lparr>field_x = offsetX, field_y = offsetY,
          field_width = fieldWidth', field_height = fieldHeight'\<rparr>)"

text \<open>
  \<open>hexToRgb\<close> runs the regular expression
  \<^verbatim>\<open>/^#?([a-f\d]{2})([a-f\d]{2})([a-f\d]{2})$/i\<close>.
  The character class, with the \<open>i\<close> flag, accepts the ASCII digits and the letters
  \<open>a\<close> to \<open>f\<close> in either case.
\<close>

definition hex_class :: "char \<Rightarrow> bool" where
  "hex_class c \<longleftrightarrow>
     (let n = of_char c :: nat
      in (48 \<le> n \<and> n \<le> 57) \<or> (97 \<le> n \<and> n \<le> 102) \<or> (65 \<le> n \<and> n \<le> 70))"

text \<open>The three groups, anchored at both ends of the remaining input.\<close>

fun match_groups :: "string \<Rightarrow> (string \<times> string \<times> string) option" where
  "match_groups [a, b, c, d, e, f] =
     (if hex_class a \<and> hex_class b \<and> hex_class c \<and> hex_class d \<and> hex_class e \<and> hex_class f
      then Some ([a, b], [c, d], [e, f]) else None)"
| "match_groups _ = None"

text \<open>
  \<open>#?\<close> is greedy: the matcher first consumes a leading \<open>#\<close> and, if the rest fails,
  backtracks and tries the groups on the whole input.
\<close>

definition regex_exec :: "string \<Rightarrow> (string \<times> string \<times> string) option" where
  "regex_exec hex =
     (case hex of
        c # rest \<Rightarrow>
          (if c = CHR ''#''
           then (case match_groups rest of Some g \<Rightarrow> Some g | None \<Rightarrow> match_groups hex)
           else match_groups hex)
      | [] \<Rightarrow> match_groups hex)"

definition digit_value :: "char \<Rightarrow> nat" where
  "digit_value c =
     (let n = of_char c :: nat
      in if n \<le> 57 then n - 48 else if 97 \<le> n then n - 87 else n - 55)"

text \<open>\<open>parseInt(s, 16)\<close> on a string of hexadecimal digits.\<close>

definition parseInt16 :: "string \<Rightarrow> nat" where
  "parseInt16 s = foldl (\<lambda>acc c. 16 * acc + digit_value c) 0 s"

record rgb =
  rgb_r :: real
  rgb_g :: real
  rgb_b :: real

definition hexToRgb :: "string \<Rightarrow> rgb" where
  "hexToRgb hex =
     (case regex_exec hex of
        Some (g1, g2, g3) \<Rightarrow>
          \<lparr>rgb_r = real (parseInt16 g1), rgb_g = real (parseInt16 g2), rgb_b = real (parseInt16 g3)\<rparr>
      | None \<Rightarrow> \<lparr>rgb_r = 255, rgb_g = 255, rgb_b = 255\<rparr>)"

text \<open>
  \<open>a << n\<close>: the left operand is converted to a 32-bit integer, shifted, and read back
  as a signed 32-bit integer.
\<close>

definition shl32 :: "int \<Rightarrow> nat \<Rightarrow> int" where
  "shl32 a n = sint (push_bit n (word_of_int a :: 32 word))"

definition hex_char :: "nat \<Rightarrow> char" where
  "hex_char d = ''0123456789abcdef'' ! d"

fun hex_digits :: "nat \<Rightarrow> string" where
  "hex_digits n = (if n < 16 then [hex_char n] else hex_digits (n div 16) @ [hex_char (n mod 16)])"

text \<open>\<open>Number.prototype.toString(16)\<close> on an integer.\<close>

definition toString16 :: "int \<Rightarrow> string" where
  "toString16 n = (if n < 0 then CHR ''-'' # hex_digits (nat (- n)) else hex_digits (nat n))"

text \<open>
  The three shifts give 32-bit integers; the additions that join them to
  \<open>Math.floor(b)\<close> are additions of doubles, and the sum, an integer, is printed in
  base 16.
\<close>

definition rgbToHex :: "real \<Rightarrow> real \<Rightarrow> real \<Rightarrow> string" where
  "rgbToHex r g b =
     ''#'' @ drop 1 (toString16 \<lfloor>dbl_add (dbl_add (dbl_add (of_int (shl32 1 24))
                                                        (of_int (shl32 \<lfloor>r\<rfloor> 16)))
                                               (of_int (shl32 \<lfloor>g\<rfloor> 8)))
                                      (of_int \<lfloor>b\<rfloor>)\<rfloor>)"

text \<open>
  The \<open>speed\<close> argument is a JavaScript number, hence a double: a decimal such as the
  \<open>0.02\<close> that the chaos controller passes stands for the double nearest to it.  Each
  channel is then computed by one subtraction, one multiplication and one addition of
  doubles.
\<close>

definition transitionColor :: "string \<Rightarrow> string \<Rightarrow> real \<Rightarrow> string" where
  "transitionColor currentColor targetColor speed =
     (let currentRgb = hexToRgb currentColor;
          targetRgb = hexToRgb targetColor;
          speed' = to_double speed;
          newR = dbl_add (rgb_r currentRgb)
                   (dbl_mul (dbl_sub (rgb_r targetRgb) (rgb_r currentRgb)) speed');
          newG = dbl_add (rgb_g currentRgb)
                   (dbl_mul (dbl_sub (rgb_g targetRgb) (rgb_g currentRgb)) speed');
          newB = dbl_add (rgb_b currentRgb)
                   (dbl_mul (dbl_sub (rgb_b targetRgb) (rgb_b currentRgb)) speed')
      in rgbToHex newR newG newB)"

text \<open>
  A well-formed colour in the words of the specification: exactly six hexadecimal
  digits, with an optional leading \<open>#\<close>.
\<close>

definition is_hex_colour :: "string \<Rightarrow> bool" where
  "is_hex_colour s \<longleftrightarrow>
     (length s = 6 \<and> list_all hex_class s) \<or>
     (case s of [] \<Rightarrow> False | c # t \<Rightarrow> c = CHR ''#'' \<and> length t = 6 \<and> list_all hex_class t)"

text \<open>The two lower-case hexadecimal digits of a channel value.\<close>

definition two_hex_digits :: "nat \<Rightarrow> string" where
  "two_hex_digits n = [hex_char (n div 16), hex_char (n mod 16)]"

section \<open>paddle.js: the Paddle class\<close>

record paddle =
  paddle_x :: real
  paddle_y :: real
  paddle_width :: real
  paddle_height :: real
  isLeft :: bool
  paddle_gameParams :: game_params
  paddle_color :: string

definition new_Paddle :: "real \<Rightarrow> real \<Rightarrow> bool \<Rightarrow> game_params \<Rightarrow> paddle" where
  "new_Paddle x y left gp =
     \<lparr>paddle_x = x, paddle_y = y,
      paddle_width = paddleWidth gp, paddle_height = paddleSize gp,
      isLeft = left, paddle_gameParams = gp,
      paddle_color = str_or (paddleColor gp) ''#ffffff''\<rparr>"

text \<open>The keyboard state object, with the six keys \<open>Paddle.update\<close> reads.\<close>

record keys =
  key_w :: bool
  key_W :: bool
  key_s :: bool
  key_S :: bool
  key_ArrowUp :: bool
  key_ArrowDown :: bool

text \<open>\<open>if (updatedParams) this.gameParams = updatedParams\<close>.\<close>

definition take_params :: "game_params option \<Rightarrow> paddle \<Rightarrow> paddle" where
  "take_params updatedParams p =
     (case updatedParams of None \<Rightarrow> p | Some gp \<Rightarrow> p\<lparr>paddle_gameParams := gp\<rparr>)"

text \<open>The closing line of both movement operations.\<close>

definition keep_in_field :: "field_rect \<Rightarrow> paddle \<Rightarrow> paddle" where
  "keep_in_field f p =
     p\<lparr>paddle_y := max (field_y f)
                       (min (field_y f + field_height f - paddle_height p) (paddle_y p))\<rparr>"

definition paddle_update :: "keys \<Rightarrow> canvas \<Rightarrow> game_params option \<Rightarrow> paddle \<Rightarrow> paddle" where
  "paddle_update ks cv updatedParams p0 =
     (let p = take_params updatedParams p0;
          f = getFieldOffset cv (paddle_gameParams p);
          sp = paddleSpeed (paddle_gameParams p);
          up = (if isLeft p then key_w ks \<or> key_W ks else key_ArrowUp ks);
          down = (if isLeft p then key_s ks \<or> key_S ks else key_ArrowDown ks);
          p1 = (if up then p\<lparr>paddle_y := paddle_y p - sp\<rparr> else p);
          p2 = (if down then p1\<lparr>paddle_y := paddle_y p1 + sp\<rparr> else p1)
      in keep_in_field f p2)"


definition updateDimensions :: "paddle \<Rightarrow> paddle" where
  "updateDimensions p =
     p\<lparr>paddle_width := paddleWidth (paddle_gameParams p),
       paddle_height := paddleSize (paddle_gameParams p)\<rparr>"

section \<open>ball.js: the Ball class\<close>

record trail_point =
  tp_x :: real
  tp_y :: real
  tp_size :: real

text \<open>
  The ball's \<open>updateScore\<close> and \<open>soundManager\<close> references are modelled by whether they
  are set; the calls made through them are returned by \<open>update\<close>.
\<close>

record ball =
  ball_canvas :: canvas
  ball_gameParams :: game_params
  has_updateScore :: bool
  ball_size :: real
  ball_color :: string
  needsRemoval :: bool
  lastScoreTime :: real
  resetDelay :: real
  shouldRespawn :: bool
  has_soundManager :: bool
  trail :: "trail_point list"
  maxTrailLength :: nat
  ball_x :: real
  ball_y :: real
  ball_dx :: real
  ball_dy :: real

text \<open>The three \<open>Math.random()\<close> draws of one \<open>reset\<close>, in the order they are made.\<close>

record reset_draws =
  draw_angle :: real
  draw_direction :: real
  draw_speed :: real

definition reset :: "reset_draws \<Rightarrow> ball \<Rightarrow> ball" where
  "reset rd b =
     (let f = getFieldOffset (ball_canvas b) (ball_gameParams b);
          b1 = b\<lparr>ball_x := field_x f + field_width f / 2,
                 ball_y := field_y f + field_height f / 2\<rparr>;
          angle = (draw_angle rd * pi / 2.5) - pi / 5;
          direction = (if draw_direction rd < 0.5 then 1 else - 1);
          minSpeed = max 2 (ballSpeed (ball_gameParams b) * 0.8);
          speed = minSpeed + draw_speed rd * (ballSpeed (ball_gameParams b) - minSpeed);
          b2 = b1\<lparr>ball_dx := cos angle * speed * direction,
                  ball_dy := sin angle * speed\<rparr>
      in if \<bar>ball_dx b2\<bar> < 1 then b2\<lparr>ball_dx := direction * 1\<rparr> else b2)"

text \<open>The magnitude of the ball's velocity.\<close>

definition speed_of :: "ball \<Rightarrow> real" where
  "speed_of b = sqrt ((ball_dx b)\<^sup>2 + (ball_dy b)\<^sup>2)"

text \<open>The constructor's \<open>options\<close> argument; an absent property is \<open>None\<close>.\<close>

record options =
  opt_x :: "real option"
  opt_y :: "real option"
  opt_dx :: "real option"
  opt_dy :: "real option"

definition no_options :: options where
  "no_options = \<lparr>opt_x = None, opt_y = None, opt_dx = None, opt_dy = None\<rparr>"

text \<open>
  The constructor.  Position and velocity are placeholders until the last step sets
  them, as the fields of the JavaScript object are absent until then.
\<close>

definition new_Ball ::
  "canvas \<Rightarrow> game_params \<Rightarrow> bool \<Rightarrow> options \<Rightarrow> bool \<Rightarrow> reset_draws \<Rightarrow> ball" where
  "new_Ball cv gp upd opts sm rd =
     (let b = \<lparr>ball_canvas = cv, ball_gameParams = gp, has_updateScore = upd,
               ball_size = num_or (ballSize gp) 10,
               ball_color = str_or (ballColor gp) ''#ff00ff'',
               needsRemoval = False, lastScoreTime = 0, resetDelay = 500,
               shouldRespawn = True, has_soundManager = sm,
               trail = [], maxTrailLength = 10,
               ball_x = 0, ball_y = 0, ball_dx = 0, ball_dy = 0\<rparr>
      in case (opt_dx opts, opt_dy opts) of
           (Some odx, Some ody) \<Rightarrow>
             b\<lparr>ball_x := opt_or (opt_x opts) (canvas_width cv / 2),
               ball_y := opt_or (opt_y opts) (canvas_height cv / 2),
               ball_dx := odx, ball_dy := ody\<rparr>
         | _ \<Rightarrow> reset rd b)"

definition handleWallCollision :: "field_rect \<Rightarrow> real \<Rightarrow> ball \<Rightarrow> bool \<times> ball" where
  "handleWallCollision f ballSize' b =
     (let (collided1, b1) =
            (if ball_y b - ballSize' < field_y f
             then (True, b\<lparr>ball_y := field_y f + ballSize', ball_dy := \<bar>ball_dy b\<bar>\<rparr>)
             else (False, b))
      in if ball_y b1 + ballSize' > field_y f + field_height f
         then (True, b1\<lparr>ball_y := field_y f + field_height f - ballSize',
                         ball_dy := - \<bar>ball_dy b1\<bar>\<rparr>)
         else (collided1, b1))"

text \<open>
  The parts of \<open>handlePaddleCollision\<close>: its test that the ball's bounding box
  overlaps the paddle, the four penetration depths it computes, their minimum, and
  its test for a hit on a vertical side of the paddle (the horizontal collision).
\<close>

definition ball_overlaps_paddle :: "paddle \<Rightarrow> real \<Rightarrow> ball \<Rightarrow> bool" where
  "ball_overlaps_paddle p ballSize' b \<longleftrightarrow>
     (let ballLeft = ball_x b - ballSize';
          ballRight = ball_x b + ballSize';
          ballTop = ball_y b - ballSize';
          ballBottom = ball_y b + ballSize';
          paddleLeft = paddle_x p;
          paddleRight = paddle_x p + paddle_width p;
          paddleTop = paddle_y p;
          paddleBottom = paddle_y p + paddle_height p
      in ballRight \<ge> paddleLeft \<and> ballLeft \<le> paddleRight \<and>
         ballBottom \<ge> paddleTop \<and> ballTop \<le> paddleBottom)"

definition overlapLeft :: "paddle \<Rightarrow> real \<Rightarrow> ball \<Rightarrow> real" where
  "overlapLeft p ballSize' b = (ball_x b + ballSize') - paddle_x p"

definition overlapRight :: "paddle \<Rightarrow> real \<Rightarrow> ball \<Rightarrow> real" where
  "overlapRight p ballSize' b = (paddle_x p + paddle_width p) - (ball_x b - ballSize')"

definition overlapTop :: "paddle \<Rightarrow> real \<Rightarrow> ball \<Rightarrow> real" where
  "overlapTop p ballSize' b = (ball_y b + ballSize') - paddle_y p"

definition overlapBottom :: "paddle \<Rightarrow> real \<Rightarrow> ball \<Rightarrow> real" where
  "overlapBottom p ballSize' b = (paddle_y p + paddle_height p) - (ball_y b - ballSize')"

definition minOverlap :: "paddle \<Rightarrow> real \<Rightarrow> ball \<Rightarrow> real" where
  "minOverlap p ballSize' b =
     min (min (min (overlapLeft p ballSize' b) (overlapRight p ballSize' b))
              (overlapTop p ballSize' b))
         (overlapBottom p ballSize' b)"

definition horizontal_collision :: "paddle \<Rightarrow> real \<Rightarrow> ball \<Rightarrow> bool" where
  "horizontal_collision p ballSize' b \<longleftrightarrow>
     minOverlap p ballSize' b = overlapLeft p ballSize' b \<or>
     minOverlap p ballSize' b = overlapRight p ballSize' b"

text \<open>
  The horizontal branch of the paddle collision divides by \<open>paddle.height\<close>; see the
  note on numbers for a paddle of height \<open>0\<close>.
\<close>

definition handlePaddleCollision :: "paddle \<Rightarrow> real \<Rightarrow> ball \<Rightarrow> bool \<times> ball" where
  "handlePaddleCollision p ballSize' b =
     (if ball_overlaps_paddle p ballSize' b
      then
        (let paddleLeft = paddle_x p;
             paddleRight = paddle_x p + paddle_width p;
             paddleTop = paddle_y p;
             paddleBottom = paddle_y p + paddle_height p;
             b3 =
               (if horizontal_collision p ballSize' b
                then
                  (let b1 = b\<lparr>ball_dx := - ball_dx b\<rparr>;
                       b2 = (if minOverlap p ballSize' b = overlapLeft p ballSize' b
                             then b1\<lparr>ball_x := paddleLeft - ballSize'\<rparr>
                             else b1\<lparr>ball_x := paddleRight + ballSize'\<rparr>);
                       hitPosition = (ball_y b2 - paddle_y p) / paddle_height p;
                       b2' = b2\<lparr>ball_dy := (hitPosition - 0.5) * 2 * \<bar>ball_dx b2\<bar>\<rparr>;
                       minSpeed = 2
                   in if \<bar>ball_dx b2'\<bar> < minSpeed
                      then b2'\<lparr>ball_dx := (if ball_dx b2' > 0 then minSpeed else - minSpeed)\<rparr>
                      else b2')
                else
                  (let b1 = b\<lparr>ball_dy := - ball_dy b\<rparr>
                   in if minOverlap p ballSize' b = overlapTop p ballSize' b
                      then b1\<lparr>ball_y := paddleTop - ballSize'\<rparr>
                      else b1\<lparr>ball_y := paddleBottom + ballSize'\<rparr>));
             speedIncrease = 0.1
         in (True, b3\<lparr>ball_dx := ball_dx b3 * (1 + speedIncrease),
                       ball_dy := ball_dy b3 * (1 + speedIncrease)\<rparr>))
      else (False, b))"

text \<open>
  A run of consecutive paddle collisions: before each one the ball has moved to some
  position, its velocity being what the previous collision left (no wall hit and no
  gravity in between), and the collision must register.
\<close>

fun consecutive_hits :: "(real \<times> real \<times> paddle \<times> real) list \<Rightarrow> ball \<Rightarrow> ball option" where
  "consecutive_hits [] b = Some b"
| "consecutive_hits ((x, y, p, ballSize') # rest) b =
     (case handlePaddleCollision p ballSize' (b\<lparr>ball_x := x, ball_y := y\<rparr>) of
        (True, b') \<Rightarrow> consecutive_hits rest b'
      | (False, b') \<Rightarrow> None)"

text \<open>The argument of the \<open>updateScore\<close> callback: \<open>'left'\<close> or \<open>'right'\<close>.\<close>

datatype side = LeftSide | RightSide

text \<open>
  What one call of \<open>update\<close> does besides changing the ball: the shake amount it
  returns, which paddle collisions it registers, which of the two scoring branches
  it takes (in order; \<open>RightSide\<close> is the exit on the left, where the right player
  scores), the \<open>updateScore\<close> calls it makes (in order), whether it plays the paddle
  sound, and the ball as it stands when it is handed to \<open>createMultiball\<close>, if it is.
\<close>

record update_result =
  res_ball :: ball
  res_shake :: real
  res_hitLeft :: bool
  res_hitRight :: bool
  res_exits :: "side list"
  res_scores :: "side list"
  res_sound :: bool
  res_spawn :: "ball option"

text \<open>The random draws one \<open>update\<close> may make.\<close>

record update_draws =
  draw_multiball :: real
  draw_reset_left :: reset_draws
  draw_reset_right :: reset_draws

definition push_trail :: "ball \<Rightarrow> ball" where
  "push_trail b =
     (if trailEffect (ball_gameParams b)
      then (let t = trail b @ [\<lparr>tp_x = ball_x b, tp_y = ball_y b, tp_size = ball_size b\<rparr>]
            in b\<lparr>trail := (if length t > maxTrailLength b then tl t else t)\<rparr>)
      else b\<lparr>trail := []\<rparr>)"

text \<open>
  The two paddle checks of \<open>update\<close>: the left paddle is tried only while \<open>dx < 0\<close>,
  then the right paddle only while \<open>dx > 0\<close>.
\<close>

definition check_paddles :: "paddle \<Rightarrow> paddle \<Rightarrow> real \<Rightarrow> ball \<Rightarrow> bool \<times> bool \<times> ball" where
  "check_paddles paddleLeft paddleRight ballSize' b =
     (let (hitLeft, b1) = (if ball_dx b < 0 then handlePaddleCollision paddleLeft ballSize' b
                           else (False, b));
          (hitRight, b2) = (if ball_dx b1 > 0 then handlePaddleCollision paddleRight ballSize' b1
                            else (False, b1))
      in (hitLeft, hitRight, b2))"

text \<open>
  The body shared by the two scoring branches of \<open>update\<close>: the branch taken, the
  \<open>updateScore\<close> call if the callback is set, and the ball reset or marked.
\<close>

definition score_exit ::
  "side \<Rightarrow> real \<Rightarrow> reset_draws \<Rightarrow> ball \<Rightarrow> side list \<times> side list \<times> ball" where
  "score_exit s timestamp rd b =
     ([s],
      if has_updateScore b then [s] else [],
      if shouldRespawn b then reset rd (b\<lparr>lastScoreTime := timestamp\<rparr>)
      else b\<lparr>needsRemoval := True\<rparr>)"

text \<open>The two scoring checks of \<open>update\<close>, in order, on the field computed at its start.\<close>

definition check_scoring ::
  "real \<Rightarrow> field_rect \<Rightarrow> real \<Rightarrow> update_draws \<Rightarrow> ball \<Rightarrow> side list \<times> side list \<times> ball" where
  "check_scoring timestamp f ballSize' ud b =
     (let (exits1, scores1, b1) =
            (if ball_x b + ballSize' < field_x f
             then score_exit RightSide timestamp (draw_reset_left ud) b
             else ([], [], b));
          (exits2, scores2, b2) =
            (if ball_x b1 - ballSize' > field_x f + field_width f
             then score_exit LeftSide timestamp (draw_reset_right ud) b1
             else ([], [], b1))
      in (exits1 @ exits2, scores1 @ scores2, b2))"

definition update ::
  "real \<Rightarrow> paddle \<Rightarrow> paddle \<Rightarrow> real \<Rightarrow> bool \<Rightarrow> update_draws \<Rightarrow> ball \<Rightarrow> update_result" where
  "update timestamp paddleLeft paddleRight shakeAmount createMultiball ud b0 =
     (if lastScoreTime b0 > 0 \<and> timestamp - lastScoreTime b0 < resetDelay b0
      then \<lparr>res_ball = b0, res_shake = shakeAmount, res_hitLeft = False, res_hitRight = False,
            res_exits = [], res_scores = [], res_sound = False, res_spawn = None\<rparr>
      else
        (let b1 = (if lastScoreTime b0 > 0 then b0\<lparr>lastScoreTime := 0\<rparr> else b0);
             gp = ball_gameParams b1;
             f = getFieldOffset (ball_canvas b1) gp;
             ballSize' = ball_size b1 / 2;
             b2 = push_trail b1;
             b3 = b2\<lparr>ball_dx := ball_dx b2 + num_or (ballGravityX gp) 0,
                     ball_dy := ball_dy b2 + num_or (ballGravityY gp) 0\<rparr>;
             b4 = b3\<lparr>ball_x := ball_x b3 + ball_dx b3, ball_y := ball_y b3 + ball_dy b3\<rparr>;
             (wall, b5) = handleWallCollision f ballSize' b4;
             shake1 = (if wall then shakeAmount + 1 else shakeAmount);
             (hitLeft, hitRight, b7) = check_paddles paddleLeft paddleRight ballSize' b5;
             paddleHit = (hitLeft \<or> hitRight);
             shake2 = (if paddleHit then shake1 + 3 else shake1);
             spawn = (if paddleHit \<and> createMultiball \<and> multiball gp \<and> draw_multiball ud < 0.05
                      then Some b7 else None);
             (exits, scores, b9) = check_scoring timestamp f ballSize' ud b7
         in \<lparr>res_ball = b9, res_shake = shake2, res_hitLeft = hitLeft, res_hitRight = hitRight,
             res_exits = exits, res_scores = scores,
             res_sound = (paddleHit \<and> has_soundManager b7), res_spawn = spawn\<rparr>))"

definition updateSize :: "ball \<Rightarrow> ball" where
  "updateSize b =
     (let b1 = b\<lparr>ball_size := num_or (ballSize (ball_gameParams b)) 10\<rparr>
      in if ballColor (ball_gameParams b1) \<noteq> []
         then b1\<lparr>ball_color := ballColor (ball_gameParams b1)\<rparr> else b1)"

section \<open>chaos.js: the ChaosController class\<close>

text \<open>
  An entry of \<open>chaosParams\<close>.  \<open>transitionStart\<close> is absent from the object literal and
  appears at the first re-roll; \<open>isBoolean\<close> is absent (falsy) on all entries but one.
\<close>

record chaos_param =
  cp_name :: string
  cp_min :: real
  cp_max :: real
  cp_current :: real
  cp_target :: real
  nextChange :: real
  transitionDuration :: real
  transitionStart :: "real option"
  isBoolean :: bool

text \<open>
  An entry of \<open>colorParams\<close>; \<open>col_range\<close> is the factor in its \<open>getRandomColor\<close>.
\<close>

record color_param =
  col_name :: string
  col_current :: string
  col_nextChange :: real
  col_range :: real

record chaos_controller =
  cc_defaultParams :: game_params
  cc_targetParams :: game_params
  chaosParams :: "chaos_param list"
  colorParams :: "color_param list"
  cc_gameParams :: game_params
  startTime :: real
  chaosStartDelay :: real
  invertControlsNextChange :: real

text \<open>
  \<open>gameParams[name]\<close> on the record of parameters.  A name outside the record would
  create a property that the simulation never reads; the record is then unchanged.
\<close>

definition get_number :: "string \<Rightarrow> game_params \<Rightarrow> real" where
  "get_number name gp =
     (if name = ''ballSpeed'' then ballSpeed gp
      else if name = ''ballSize'' then ballSize gp
      else if name = ''paddleSize'' then paddleSize gp
      else if name = ''paddleWidth'' then paddleWidth gp
      else if name = ''paddleSpeed'' then paddleSpeed gp
      else if name = ''ballGravityX'' then ballGravityX gp
      else if name = ''ballGravityY'' then ballGravityY gp
      else if name = ''fieldWidth'' then fieldWidth gp
      else if name = ''fieldHeight'' then fieldHeight gp
      else if name = ''multiball'' then (if multiball gp then 1 else 0)
      else 0)"

definition set_number :: "string \<Rightarrow> real \<Rightarrow> game_params \<Rightarrow> game_params" where
  "set_number name v gp =
     (if name = ''ballSpeed'' then gp\<lparr>ballSpeed := v\<rparr>
      else if name = ''ballSize'' then gp\<lparr>ballSize := v\<rparr>
      else if name = ''paddleSize'' then gp\<lparr>paddleSize := v\<rparr>
      else if name = ''paddleWidth'' then gp\<lparr>paddleWidth := v\<rparr>
      else if name = ''paddleSpeed'' then gp\<lparr>paddleSpeed := v\<rparr>
      else if name = ''ballGravityX'' then gp\<lparr>ballGravityX := v\<rparr>
      else if name = ''ballGravityY'' then gp\<lparr>ballGravityY := v\<rparr>
      else if name = ''fieldWidth'' then gp\<lparr>fieldWidth := v\<rparr>
      else if name = ''fieldHeight'' then gp\<lparr>fieldHeight := v\<rparr>
      else gp)"

definition set_boolean :: "string \<Rightarrow> bool \<Rightarrow> game_params \<Rightarrow> game_params" where
  "set_boolean name v gp =
     (if name = ''multiball'' then gp\<lparr>multiball := v\<rparr>
      else if name = ''trailEffect'' then gp\<lparr>trailEffect := v\<rparr>
      else if name = ''screenShake'' then gp\<lparr>screenShake := v\<rparr>
      else if name = ''invertControls'' then gp\<lparr>invertControls := v\<rparr>
      else gp)"

definition get_color :: "string \<Rightarrow> game_params \<Rightarrow> string" where
  "get_color name gp =
     (if name = ''ballColor'' then ballColor gp
      else if name = ''paddleColor'' then paddleColor gp
      else if name = ''backgroundColor'' then backgroundColor gp
      else if name = ''fieldBorderColor'' then fieldBorderColor gp
      else [])"

definition set_color :: "string \<Rightarrow> string \<Rightarrow> game_params \<Rightarrow> game_params" where
  "set_color name v gp =
     (if name = ''ballColor'' then gp\<lparr>ballColor := v\<rparr>
      else if name = ''paddleColor'' then gp\<lparr>paddleColor := v\<rparr>
      else if name = ''backgroundColor'' then gp\<lparr>backgroundColor := v\<rparr>
      else if name = ''fieldBorderColor'' then gp\<lparr>fieldBorderColor := v\<rparr>
      else gp)"

definition new_chaos_param :: "string \<Rightarrow> real \<Rightarrow> real \<Rightarrow> real \<Rightarrow> bool \<Rightarrow> chaos_param" where
  "new_chaos_param name lo hi v isBool =
     \<lparr>cp_name = name, cp_min = lo, cp_max = hi, cp_current = v, cp_target = v,
      nextChange = 0, transitionDuration = 0, transitionStart = None, isBoolean = isBool\<rparr>"

definition new_ChaosController :: "game_params \<Rightarrow> chaos_controller" where
  "new_ChaosController dp =
     \<lparr>cc_defaultParams = dp,
      cc_targetParams = dp,
      chaosParams =
        [new_chaos_param ''ballSpeed'' 2 7 (ballSpeed dp) False,
         new_chaos_param ''ballSize'' 5 15 (ballSize dp) False,
         new_chaos_param ''paddleSize'' 60 130 (paddleSize dp) False,
         new_chaos_param ''paddleWidth'' 10 25 (paddleWidth dp) False,
         new_chaos_param ''paddleSpeed'' 5 12 (paddleSpeed dp) False,
         new_chaos_param ''ballGravityX'' (- 0.02) 0.02 0 False,
         new_chaos_param ''ballGravityY'' (- 0.1) 0.1 0 False,
         new_chaos_param ''fieldWidth'' 0.7 0.95 (fieldWidth dp) False,
         new_chaos_param ''fieldHeight'' 0.7 0.95 (fieldHeight dp) False,
         new_chaos_param ''multiball'' 0 1 (if multiball dp then 1 else 0) True],
      colorParams =
        [\<lparr>col_name = ''ballColor'', col_current = str_or (ballColor dp) ''#ffffff'',
          col_nextChange = 0, col_range = 16777215\<rparr>,
         \<lparr>col_name = ''paddleColor'', col_current = str_or (paddleColor dp) ''#ffffff'',
          col_nextChange = 0, col_range = 16777215\<rparr>,
         \<lparr>col_name = ''backgroundColor'', col_current = backgroundColor dp,
          col_nextChange = 0, col_range = 4210752\<rparr>,
         \<lparr>col_name = ''fieldBorderColor'', col_current = fieldBorderColor dp,
          col_nextChange = 0, col_range = 16777215\<rparr>],
      cc_gameParams = dp,
      startTime = 0,
      chaosStartDelay = 10000,
      invertControlsNextChange = 0\<rparr>"

text \<open>The draws of one pass over one entry of \<open>chaosParams\<close>, in source order.\<close>

record param_draws =
  draw_target :: real
  draw_next :: real
  draw_duration :: real

text \<open>
  The body of the \<open>forEach\<close> in \<open>updateParameters\<close>, on the entry.  While
  \<open>transitionStart\<close> is absent the comparison \<open>timestamp < undefined + duration\<close> is
  false.
\<close>

definition update_param :: "real \<Rightarrow> param_draws \<Rightarrow> chaos_param \<Rightarrow> chaos_param" where
  "update_param timestamp d p =
     (let p1 = (if timestamp \<ge> nextChange p
                then p\<lparr>cp_target := cp_min p + draw_target d * (cp_max p - cp_min p),
                       nextChange := timestamp + 5000 + draw_next d * 5000,
                       transitionDuration := 2000 + draw_duration d * 1000,
                       transitionStart := Some timestamp\<rparr>
                else p)
      in case transitionStart p1 of
           None \<Rightarrow> p1
         | Some start \<Rightarrow>
             (if timestamp < start + transitionDuration p1
              then (let progress = (timestamp - start) / transitionDuration p1
                    in p1\<lparr>cp_current :=
                             cp_current p1 + (cp_target p1 - cp_current p1) * min progress 0.1\<rparr>)
              else p1))"

text \<open>The write of the entry's value into \<open>gameParams\<close> that ends the body.\<close>

definition apply_param :: "chaos_param \<Rightarrow> game_params \<Rightarrow> game_params" where
  "apply_param p gp =
     (if isBoolean p then set_boolean (cp_name p) (cp_current p > 0.5) gp
      else set_number (cp_name p) (cp_current p) gp)"

text \<open>The \<open>forEach\<close> itself; entry \<open>i\<close> uses the draws \<open>ds i\<close>.\<close>

fun params_forEach ::
  "real \<Rightarrow> (nat \<Rightarrow> param_draws) \<Rightarrow> nat \<Rightarrow> chaos_param list \<Rightarrow> game_params
     \<Rightarrow> chaos_param list \<times> game_params" where
  "params_forEach timestamp ds i [] gp = ([], gp)"
| "params_forEach timestamp ds i (p # ps) gp =
     (let p' = update_param timestamp (ds i) p;
          (ps', gp') = params_forEach timestamp ds (Suc i) ps (apply_param p' gp)
      in (p' # ps', gp'))"

definition updateParameters ::
  "real \<Rightarrow> (nat \<Rightarrow> param_draws) \<Rightarrow> chaos_controller \<Rightarrow> chaos_controller" where
  "updateParameters timestamp ds c =
     (let (ps, gp) = params_forEach timestamp ds 0 (chaosParams c) (cc_gameParams c)
      in c\<lparr>chaosParams := ps, cc_gameParams := gp\<rparr>)"

record color_draws =
  draw_color_next :: real
  draw_color :: real

text \<open>\<open>s.padStart(6, '0')\<close>.\<close>

definition padStart6 :: "string \<Rightarrow> string" where
  "padStart6 s = replicate (6 - length s) (CHR ''0'') @ s"

definition getRandomColor :: "real \<Rightarrow> real \<Rightarrow> string" where
  "getRandomColor limit r = ''#'' @ padStart6 (toString16 \<lfloor>r * limit\<rfloor>)"

fun colors_forEach ::
  "real \<Rightarrow> (nat \<Rightarrow> color_draws) \<Rightarrow> nat \<Rightarrow> color_param list \<Rightarrow> game_params \<times> game_params
     \<Rightarrow> color_param list \<times> game_params \<times> game_params" where
  "colors_forEach timestamp ds i [] (tp, gp) = ([], tp, gp)"
| "colors_forEach timestamp ds i (p # ps) (tp, gp) =
     (let (p', tp') =
            (if timestamp \<ge> col_nextChange p
             then (p\<lparr>col_nextChange := timestamp + 2000 + draw_color_next (ds i) * 6000\<rparr>,
                   set_color (col_name p) (getRandomColor (col_range p) (draw_color (ds i))) tp)
             else (p, tp));
          gp' = set_color (col_name p)
                  (transitionColor (get_color (col_name p) gp) (get_color (col_name p) tp') 0.02) gp;
          (ps', tp'', gp'') = colors_forEach timestamp ds (Suc i) ps (tp', gp')
      in (p' # ps', tp'', gp''))"

definition updateColors ::
  "real \<Rightarrow> (nat \<Rightarrow> color_draws) \<Rightarrow> chaos_controller \<Rightarrow> chaos_controller" where
  "updateColors timestamp ds c =
     (let (ps, tp, gp) =
            colors_forEach timestamp ds 0 (colorParams c) (cc_targetParams c, cc_gameParams c)
      in c\<lparr>colorParams := ps, cc_targetParams := tp, cc_gameParams := gp\<rparr>)"

record invert_draws =
  draw_invert :: real
  draw_invert_next :: real

definition updateInvertedControls ::
  "real \<Rightarrow> invert_draws \<Rightarrow> chaos_controller \<Rightarrow> chaos_controller" where
  "updateInvertedControls timestamp d c =
     (if timestamp \<ge> invertControlsNextChange c
      then (let shouldInvert = (draw_invert d < 0.15)
            in c\<lparr>cc_gameParams := (cc_gameParams c)\<lparr>invertControls := shouldInvert\<rparr>,
                 invertControlsNextChange := timestamp + 10000 + draw_invert_next d * 10000\<rparr>)
      else c)"

record chaos_draws =
  cd_params :: "nat \<Rightarrow> param_draws"
  cd_colors :: "nat \<Rightarrow> color_draws"
  cd_invert :: invert_draws

text \<open>
  \<open>update\<close> returns \<open>this.gameParams\<close>, which is \<open>cc_gameParams\<close> of the controller
  returned here.
\<close>

definition chaos_update :: "real \<Rightarrow> bool \<Rightarrow> chaos_draws \<Rightarrow> chaos_controller \<Rightarrow> chaos_controller" where
  "chaos_update timestamp active d c =
     (if \<not> active then c
      else
        (let c1 = (if startTime c = 0 then c\<lparr>startTime := timestamp\<rparr> else c)
         in if timestamp - startTime c1 < chaosStartDelay c1 then c1
            else updateInvertedControls timestamp (cd_invert d)
                   (updateColors timestamp (cd_colors d)
                      (updateParameters timestamp (cd_params d) c1))))"

definition chaos_reset :: "chaos_controller \<Rightarrow> chaos_controller" where
  "chaos_reset c =
     (let dp = cc_defaultParams c
      in c\<lparr>cc_gameParams := dp,
           cc_targetParams := dp,
           startTime := 0,
           invertControlsNextChange := 0,
           chaosParams :=
             map (\<lambda>p. let v = num_or (get_number (cp_name p) dp) 0
                      in p\<lparr>cp_current := v, cp_target := v, nextChange := 0\<rparr>)
                 (chaosParams c),
           colorParams :=
             map (\<lambda>p. p\<lparr>col_current := get_color (col_name p) dp, col_nextChange := 0\<rparr>)
                 (colorParams c)\<rparr>)"

text \<open>
  A sequence of calls on the controller of an active game: \<open>update\<close> with its
  timestamp and draws, or \<open>reset\<close>.
\<close>

datatype chaos_call = CallUpdate real chaos_draws | CallReset

fun do_call :: "chaos_call \<Rightarrow> chaos_controller \<Rightarrow> chaos_controller" where
  "do_call (CallUpdate timestamp d) c = chaos_update timestamp True d c"
| "do_call CallReset c = chaos_reset c"

fun chaos_calls :: "chaos_call list \<Rightarrow> chaos_controller \<Rightarrow> chaos_controller" where
  "chaos_calls [] c = c"
| "chaos_calls (e # rest) c = chaos_calls rest (do_call e c)"

text \<open>Draws that \<open>Math.random()\<close> can return, for one entry and for one call.\<close>

definition random_param_draws :: "param_draws \<Rightarrow> bool" where
  "random_param_draws d \<longleftrightarrow>
     is_random (draw_target d) \<and> is_random (draw_next d) \<and> is_random (draw_duration d)"

fun random_call :: "chaos_call \<Rightarrow> bool" where
  "random_call (CallUpdate timestamp d) = (\<forall>i. random_param_draws (cd_params d i))"
| "random_call CallReset = True"

text \<open>The timestamps of the \<open>update\<close> calls of a sequence, in order.\<close>

fun timestamps :: "chaos_call list \<Rightarrow> real list" where
  "timestamps [] = []"
| "timestamps (CallUpdate timestamp d # rest) = timestamp # timestamps rest"
| "timestamps (CallReset # rest) = timestamps rest"

text \<open>Every draw of every pass is the same number.\<close>

definition constant_draws :: "real \<Rightarrow> chaos_draws" where
  "constant_draws r =
     \<lparr>cd_params = (\<lambda>i. \<lparr>draw_target = r, draw_next = r, draw_duration = r\<rparr>),
      cd_colors = (\<lambda>i. \<lparr>draw_color_next = r, draw_color = r\<rparr>),
      cd_invert = \<lparr>draw_invert = r, draw_invert_next = r\<rparr>\<rparr>"

text \<open>
  The default parameters lie within the bounds that the constructor's table gives
  to the entries: the controller starts within bounds, and \<open>reset\<close> returns it there.
\<close>

definition defaults_in_bounds :: "game_params \<Rightarrow> bool" where
  "defaults_in_bounds dp \<longleftrightarrow>
     2 \<le> ballSpeed dp \<and> ballSpeed dp \<le> 7 \<and>
     5 \<le> ballSize dp \<and> ballSize dp \<le> 15 \<and>
     60 \<le> paddleSize dp \<and> paddleSize dp \<le> 130 \<and>
     10 \<le> paddleWidth dp \<and> paddleWidth dp \<le> 25 \<and>
     5 \<le> paddleSpeed dp \<and> paddleSpeed dp \<le> 12 \<and>
     - 0.02 \<le> ballGravityX dp \<and> ballGravityX dp \<le> 0.02 \<and>
     - 0.1 \<le> ballGravityY dp \<and> ballGravityY dp \<le> 0.1 \<and>
     0.7 \<le> fieldWidth dp \<and> fieldWidth dp \<le> 0.95 \<and>
     0.7 \<le> fieldHeight dp \<and> fieldHeight dp \<le> 0.95"

text \<open>
  The invariant of an entry, relative to the latest timestamp \<open>T\<close> seen: value, target
  and default within bounds, and a transition, once one has started, started no later
  than \<open>T\<close> with a positive duration.
\<close>

definition param_ok :: "game_params \<Rightarrow> real \<Rightarrow> chaos_param \<Rightarrow> bool" where
  "param_ok dp T p \<longleftrightarrow>
     cp_min p \<le> cp_current p \<and> cp_current p \<le> cp_max p \<and>
     cp_min p \<le> cp_target p \<and> cp_target p \<le> cp_max p \<and>
     cp_min p \<le> num_or (get_number (cp_name p) dp) 0 \<and>
     num_or (get_number (cp_name p) dp) 0 \<le> cp_max p \<and>
     (case transitionStart p of
        None \<Rightarrow> True
      | Some start \<Rightarrow> start \<le> T \<and> 0 < transitionDuration p)"

definition controller_ok :: "real \<Rightarrow> chaos_controller \<Rightarrow> bool" where
  "controller_ok T c \<longleftrightarrow> list_all (param_ok (cc_defaultParams c) T) (chaosParams c)"

section \<open>game.js: the Game class\<close>

definition defaultParams :: game_params where
  "defaultParams =
     \<lparr>ballSpeed = 3.5, ballSize = 10, paddleSize = 100, paddleWidth = 15, paddleSpeed = 8,
      fieldWidth = 0.9, fieldHeight = 0.9, ballGravityX = 0, ballGravityY = 0,
      multiball = False, trailEffect = True, screenShake = True, invertControls = False,
      ballColor = ''#ff00ff'', paddleColor = ''#00ffff'',
      backgroundColor = ''#0a0a12'', fieldBorderColor = ''#1c1c35''\<rparr>"

text \<open>
  The closure of the \<open>setInterval\<close> callback that \<open>createMultiballSequence\<close> installs:
  its two captured counters.  \<open>multiballInterval\<close> is \<open>None\<close> for \<open>null\<close>.
\<close>

record multiball_sequence =
  ballsToCreate :: int
  ballsCreated :: int

text \<open>
  The state of the game that owns the ball collection.  The paddles, the keyboard
  state, the chaos controller and the drawing are not part of this record:
  \<open>gameLoop\<close> below takes the parameter snapshot that the chaos controller returns
  and the two paddles, as they stand when the balls are updated, as arguments.
\<close>

record game =
  game_canvas :: canvas
  params :: game_params
  shakeAmount :: real
  maxBalls :: nat
  gameActive :: bool
  leftScore :: nat
  rightScore :: nat
  lastMultiballTime :: real
  multiballActive :: bool
  multiballInterval :: "multiball_sequence option"
  balls :: "ball list"

definition updateScore :: "side \<Rightarrow> game \<Rightarrow> game" where
  "updateScore s g =
     (case s of
        LeftSide \<Rightarrow> g\<lparr>leftScore := leftScore g + 1\<rparr>
      | RightSide \<Rightarrow> g\<lparr>rightScore := rightScore g + 1\<rparr>)"

text \<open>\<open>createGameObjects\<close>, without the two paddles.\<close>

definition createGameObjects :: "reset_draws \<Rightarrow> game \<Rightarrow> game" where
  "createGameObjects rd g =
     (let g1 = g\<lparr>params := (params g)\<lparr>paddleColor := str_or (paddleColor (params g)) ''#00ffff''\<rparr>\<rparr>;
          mainBall = new_Ball (game_canvas g1) (params g1) True no_options True rd
      in g1\<lparr>balls := [mainBall]\<rparr>)"

text \<open>The constructor followed by \<open>init\<close>, on a canvas of the given size.\<close>

definition new_Game :: "canvas \<Rightarrow> reset_draws \<Rightarrow> game" where
  "new_Game cv rd =
     createGameObjects rd
       \<lparr>game_canvas = cv, params = defaultParams, shakeAmount = 0, maxBalls = 5,
        gameActive = True, leftScore = 0, rightScore = 0, lastMultiballTime = 0,
        multiballActive = False, multiballInterval = None, balls = []\<rparr>"

text \<open>
  \<open>resizeCanvas\<close>: the canvas is one object shared with every ball, so its new size
  is seen by all of them.
\<close>

definition resizeCanvas :: "real \<Rightarrow> real \<Rightarrow> game \<Rightarrow> game" where
  "resizeCanvas innerWidth innerHeight g =
     (let cv = \<lparr>canvas_width = innerWidth * 0.9, canvas_height = innerHeight * 0.8\<rparr>
      in g\<lparr>game_canvas := cv, balls := map (\<lambda>b. b\<lparr>ball_canvas := cv\<rparr>) (balls g)\<rparr>)"

definition game_reset :: "reset_draws \<Rightarrow> game \<Rightarrow> game" where
  "game_reset rd g =
     createGameObjects rd
       (g\<lparr>gameActive := True, leftScore := 0, rightScore := 0,
          params := defaultParams, shakeAmount := 0, balls := []\<rparr>)"

text \<open>
  The constructor makes no draw when \<open>options\<close> carries a velocity; its draws
  argument is then this placeholder.
\<close>

definition no_draws :: reset_draws where
  "no_draws = \<lparr>draw_angle = 0, draw_direction = 0, draw_speed = 0\<rparr>"

text \<open>The draws of one \<open>createMultiball\<close>, in source order.\<close>

record spawn_draws =
  draw_spawn_dx :: real
  draw_spawn_sign :: real
  draw_spawn_dy :: real

text \<open>\<open>currentTime\<close> is the value of \<open>performance.now()\<close>.\<close>

definition createMultiball :: "ball \<Rightarrow> real \<Rightarrow> spawn_draws \<Rightarrow> game \<Rightarrow> game" where
  "createMultiball sourceBall currentTime sd g =
     (if length (balls g) \<ge> maxBalls g then g
      else if \<not> multiball (params g) then g
      else if currentTime - lastMultiballTime g < 500 then g
      else
        (let newBall =
               new_Ball (game_canvas g) (params g) True
                 \<lparr>opt_x = Some (ball_x sourceBall),
                  opt_y = Some (ball_y sourceBall),
                  opt_dx = Some (- ball_dx sourceBall * (0.8 + draw_spawn_dx sd * 0.4)),
                  opt_dy = Some (ball_dy sourceBall * (if draw_spawn_sign sd < 0.5 then 1 else - 1)
                                 * (0.8 + draw_spawn_dy sd * 0.4))\<rparr>
                 True no_draws
         in g\<lparr>balls := balls g @ [newBall], lastMultiballTime := currentTime, shakeAmount := 8\<rparr>))"

definition createMultiballSequence :: "game \<Rightarrow> game" where
  "createMultiballSequence g =
     g\<lparr>multiballInterval :=
         Some \<lparr>ballsToCreate = int (maxBalls g) - int (length (balls g)), ballsCreated = 0\<rparr>\<rparr>"

text \<open>One firing of the interval callback; nothing fires while no interval is set.\<close>

definition interval_callback :: "real \<Rightarrow> game \<Rightarrow> game" where
  "interval_callback r g =
     (case multiballInterval g of
        None \<Rightarrow> g
      | Some sq \<Rightarrow>
          (if ballsCreated sq \<ge> ballsToCreate sq \<or> \<not> multiball (params g)
              \<or> length (balls g) \<ge> maxBalls g
           then g\<lparr>multiballInterval := None\<rparr>
           else
             (let f = getFieldOffset (game_canvas g) (params g);
                  angle = r * pi * 2;
                  newBall =
                    new_Ball (game_canvas g) (params g) True
                      \<lparr>opt_x = Some (field_x f + field_width f / 2),
                       opt_y = Some (field_y f + field_height f / 2),
                       opt_dx = Some (cos angle * ballSpeed (params g)),
                       opt_dy = Some (sin angle * ballSpeed (params g))\<rparr>
                      True no_draws
              in g\<lparr>balls := balls g @ [newBall],
                   multiballInterval := Some (sq\<lparr>ballsCreated := ballsCreated sq + 1\<rparr>),
                   shakeAmount := 5\<rparr>)))"

text \<open>What one pass of the loop over the balls draws and reads from the clock.\<close>

record loop_draws =
  ld_update :: update_draws
  ld_now :: real
  ld_spawn :: spawn_draws

text \<open>
  The body of the loop over the balls in \<open>gameLoop\<close>, for the ball at index \<open>i\<close>.
  The ball's \<open>update\<close> calls \<open>createMultiball\<close> (with the ball as it then stands) and
  \<open>updateScore\<close> on the game; the shake amount it returns is stored last.
\<close>

definition ball_step :: "real \<Rightarrow> paddle \<Rightarrow> paddle \<Rightarrow> loop_draws \<Rightarrow> nat \<Rightarrow> game \<Rightarrow> game" where
  "ball_step timestamp pl pr d i g =
     (let b0 = (balls g ! i)\<lparr>ball_gameParams := params g\<rparr>;
          b1 = updateSize b0;
          r = update timestamp pl pr (shakeAmount g) True (ld_update d) b1;
          g1 = (case res_spawn r of
                  None \<Rightarrow> g
                | Some src \<Rightarrow> createMultiball src (ld_now d) (ld_spawn d) g);
          g2 = foldl (\<lambda>h s. updateScore s h) g1 (res_scores r)
      in g2\<lparr>balls := (balls g2)[i := res_ball r], shakeAmount := res_shake r\<rparr>)"

text \<open>
  The loop \<open>for (let i = 0; i < this.balls.length; i++)\<close>.  The collection may grow
  while the loop runs, since a ball's update can push a new ball; the new ball is
  then updated by the same loop.  The loop ends because the collection never grows
  beyond \<open>maxBalls\<close>.
\<close>

lemma createMultiball_length:
  "maxBalls (createMultiball src t sd g) = maxBalls g \<and>
   length (balls (createMultiball src t sd g)) \<le> max (length (balls g)) (maxBalls g) \<and>
   length (balls g) \<le> length (balls (createMultiball src t sd g))"
  by (simp add: createMultiball_def Let_def)

lemma updateScore_balls:
  "maxBalls (updateScore s g) = maxBalls g \<and> balls (updateScore s g) = balls g"
  by (simp add: updateScore_def split: side.split)

lemma scores_balls:
  "maxBalls (foldl (\<lambda>h s. updateScore s h) g ss) = maxBalls g \<and>
   balls (foldl (\<lambda>h s. updateScore s h) g ss) = balls g"
  by (induction ss arbitrary: g) (simp_all add: updateScore_balls)

lemma ball_step_length:
  "maxBalls (ball_step ts pl pr d i g) = maxBalls g \<and>
   length (balls (ball_step ts pl pr d i g)) \<le> max (length (balls g)) (maxBalls g) \<and>
   length (balls g) \<le> length (balls (ball_step ts pl pr d i g))"
  by (simp add: ball_step_def Let_def scores_balls createMultiball_length split: option.split)

function balls_loop ::
  "real \<Rightarrow> paddle \<Rightarrow> paddle \<Rightarrow> (nat \<Rightarrow> loop_draws) \<Rightarrow> nat \<Rightarrow> game \<Rightarrow> game" where
  "balls_loop timestamp pl pr ds i g =
     (if i < length (balls g)
      then balls_loop timestamp pl pr ds (Suc i) (ball_step timestamp pl pr (ds i) i g)
      else g)"
  by pat_completeness auto
termination
proof (relation
    "measure (\<lambda>(timestamp, pl, pr, ds, i, g :: game). max (length (balls g)) (maxBalls g) - i)")
  show "wf (measure
    (\<lambda>(timestamp, pl, pr, ds, i, g :: game). max (length (balls g)) (maxBalls g) - i))"
    by simp
next
  fix timestamp pl pr and ds :: "nat \<Rightarrow> loop_draws" and i and g :: game
  assume "i < length (balls g)"
  then show "((timestamp, pl, pr, ds, Suc i, ball_step timestamp pl pr (ds i) i g),
              (timestamp, pl, pr, ds, i, g))
             \<in> measure
                 (\<lambda>(timestamp, pl, pr, ds, i, g :: game). max (length (balls g)) (maxBalls g) - i)"
    using ball_step_length [of timestamp pl pr "ds i" i g] by auto
qed

declare balls_loop.simps [simp del]

text \<open>
  \<open>if (i > 0) this.balls[i].shouldRespawn = false\<close> for every index: all balls but
  the first.
\<close>

definition flag_extra_balls :: "ball list \<Rightarrow> ball list" where
  "flag_extra_balls bs =
     (case bs of [] \<Rightarrow> [] | b # rest \<Rightarrow> b # map (\<lambda>e. e\<lparr>shouldRespawn := False\<rparr>) rest)"

text \<open>The part of \<open>gameLoop\<close> that follows the loop over the balls.\<close>

definition reconcile_balls :: "reset_draws \<Rightarrow> game \<Rightarrow> game" where
  "reconcile_balls rd g =
     (let g1 = g\<lparr>balls := filter (\<lambda>b. \<not> needsRemoval b) (balls g)\<rparr>;
          g2 = (if length (balls g1) = 0
                then g1\<lparr>balls := balls g1 @
                          [new_Ball (game_canvas g1) (params g1) True no_options True rd]\<rparr>
                else g1)
      in if multiball (params g2) \<and> \<not> multiballActive g2 \<and> length (balls g2) < maxBalls g2
         then createMultiballSequence (g2\<lparr>multiballActive := True\<rparr>)
         else if \<not> multiball (params g2)
         then g2\<lparr>multiballActive := False, balls := flag_extra_balls (balls g2)\<rparr>
         else g2)"

text \<open>
  \<open>gameLoop\<close>, without drawing.  \<open>newParams\<close> is what \<open>chaosController.update\<close>
  returns in this frame; \<open>pl\<close> and \<open>pr\<close> are the paddles after their own update.
\<close>

definition gameLoop ::
  "real \<Rightarrow> game_params \<Rightarrow> paddle \<Rightarrow> paddle \<Rightarrow> (nat \<Rightarrow> loop_draws) \<Rightarrow> reset_draws
     \<Rightarrow> game \<Rightarrow> game" where
  "gameLoop timestamp newParams pl pr ds rd g =
     (let g1 = (if screenShake (params g) \<and> shakeAmount g > 0
                then (let s = shakeAmount g * 0.92
                      in g\<lparr>shakeAmount := (if s < 0.1 then 0 else s)\<rparr>)
                else g)
      in if gameActive g1
         then reconcile_balls rd (balls_loop timestamp pl pr ds 0 (g1\<lparr>params := newParams\<rparr>))
         else g1)"

text \<open>
  Everything that can run between two states of the game: a frame, a call of
  \<open>createMultiball\<close> on some ball, a firing of the spawn-sequence interval, a resize
  of the window, a reset.
\<close>

datatype event =
    Frame real game_params paddle paddle "nat \<Rightarrow> loop_draws" reset_draws
  | Spawn ball real spawn_draws
  | IntervalFires real
  | Resize real real
  | ResetGame reset_draws

fun step :: "event \<Rightarrow> game \<Rightarrow> game" where
  "step (Frame timestamp newParams pl pr ds rd) g = gameLoop timestamp newParams pl pr ds rd g"
| "step (Spawn sourceBall currentTime sd) g = createMultiball sourceBall currentTime sd g"
| "step (IntervalFires r) g = interval_callback r g"
| "step (Resize innerWidth innerHeight) g = resizeCanvas innerWidth innerHeight g"
| "step (ResetGame rd) g = game_reset rd g"

fun run :: "event list \<Rightarrow> game \<Rightarrow> game" where
  "run [] g = g"
| "run (e # es) g = run es (step e g)"

text \<open>The invariant of the ball collection.\<close>

definition within_cap :: "game \<Rightarrow> bool" where
  "within_cap g \<longleftrightarrow> maxBalls g = 5 \<and> length (balls g) \<le> maxBalls g"

section \<open>Reference scenario\<close>

text \<open>
  The concrete inputs used in the examples below: the 800 by 480 canvas and the
  default parameters of the specification's scenarios, which give the field
  \<open>x = 40\<close>, \<open>y = 24\<close>, \<open>width = 720\<close>, \<open>height = 432\<close>; the paddles where \<open>gameLoop\<close>
  puts them (\<open>field.x + 10\<close> and \<open>field.x + field.width - 10 - width\<close>); a ball
  spawned with an explicit position and velocity (radius \<open>5\<close>).
\<close>

definition scenario_canvas :: canvas where
  "scenario_canvas = \<lparr>canvas_width = 800, canvas_height = 480\<rparr>"

definition scenario_ball :: "real \<Rightarrow> real \<Rightarrow> real \<Rightarrow> real \<Rightarrow> ball" where
  "scenario_ball x y vx vy =
     new_Ball scenario_canvas defaultParams True
       \<lparr>opt_x = Some x, opt_y = Some y, opt_dx = Some vx, opt_dy = Some vy\<rparr> True no_draws"

definition scenario_paddleLeft :: "real \<Rightarrow> paddle" where
  "scenario_paddleLeft y = new_Paddle 50 y True defaultParams"

definition scenario_paddleRight :: "real \<Rightarrow> paddle" where
  "scenario_paddleRight y = new_Paddle 735 y False defaultParams"

definition scenario_draws :: update_draws where
  "scenario_draws =
     \<lparr>draw_multiball = 0.5,
      draw_reset_left = \<lparr>draw_angle = 0.5, draw_direction = 0, draw_speed = 0\<rparr>,
      draw_reset_right = \<lparr>draw_angle = 0.5, draw_direction = 0, draw_speed = 0\<rparr>\<rparr>"

section \<open>Shared lemmas\<close>

lemmas scenario_eval =
  scenario_canvas_def scenario_ball_def scenario_paddleLeft_def scenario_paddleRight_def
  scenario_draws_def new_Ball_def new_Paddle_def opt_or_def num_or_def str_or_def
  getFieldOffset_def defaultParams_def no_draws_def Let_def

lemmas collision_eval =
  handleWallCollision_def handlePaddleCollision_def ball_overlaps_paddle_def
  horizontal_collision_def minOverlap_def
  overlapLeft_def overlapRight_def overlapTop_def overlapBottom_def

lemmas update_eval =
  update_def check_scoring_def check_paddles_def score_exit_def push_trail_def

text \<open>A step from \<open>c\<close> towards \<open>t\<close> by a fraction between \<open>0\<close> and \<open>1\<close> stays between bounds.\<close>

lemma toward_target:
  fixes c t m lo hi :: real
  assumes "lo \<le> c" "c \<le> hi" "lo \<le> t" "t \<le> hi" "0 \<le> m" "m \<le> 1"
  shows "lo \<le> c + (t - c) * m" and "c + (t - c) * m \<le> hi"
proof -
  have "0 \<le> (1 - m) * (c - lo) + m * (t - lo)"
    using assms by (intro add_nonneg_nonneg mult_nonneg_nonneg) simp_all
  then show "lo \<le> c + (t - c) * m" by (simp add: algebra_simps)
  have "0 \<le> (1 - m) * (hi - c) + m * (hi - t)"
    using assms by (intro add_nonneg_nonneg mult_nonneg_nonneg) simp_all
  then show "c + (t - c) * m \<le> hi" by (simp add: algebra_simps)
qed

text \<open>A draw scales an interval: \<open>lo + r * (hi - lo)\<close> lies in it.\<close>

lemma draw_in_interval:
  fixes lo hi r :: real
  assumes "lo \<le> hi" "is_random r"
  shows "lo \<le> lo + r * (hi - lo)" and "lo + r * (hi - lo) \<le> hi"
proof -
  have r: "0 \<le> r" "r \<le> 1" using assms by (simp_all add: is_random_def)
  have d: "0 \<le> hi - lo" using assms by simp
  show "lo \<le> lo + r * (hi - lo)" using r d by simp
  have "r * (hi - lo) \<le> 1 * (hi - lo)" using r d by (intro mult_right_mono) simp_all
  then show "lo + r * (hi - lo) \<le> hi" by simp
qed

section \<open>Chaos controller: parameter bounds\<close>

lemma update_param_ok:
  assumes ok: "param_ok dp T p" and later: "T \<le> ts" and rnd: "random_param_draws d"
  shows "param_ok dp ts (update_param ts d p)"
proof -
  define p1 where "p1 = (if ts \<ge> nextChange p
                then p\<lparr>cp_target := cp_min p + draw_target d * (cp_max p - cp_min p),
                       nextChange := ts + 5000 + draw_next d * 5000,
                       transitionDuration := 2000 + draw_duration d * 1000,
                       transitionStart := Some ts\<rparr>
                else p)"
  have mm: "cp_min p \<le> cp_max p" using ok by (simp add: param_ok_def)
  have dur: "0 < 2000 + draw_duration d * 1000"
    using rnd by (simp add: random_param_draws_def is_random_def add_pos_nonneg)
  have ok1: "param_ok dp ts p1"
  proof (cases "ts \<ge> nextChange p")
    case True
    then show ?thesis
      using ok dur draw_in_interval [OF mm, of "draw_target d"] rnd
      by (simp add: p1_def param_ok_def random_param_draws_def)
  next
    case False
    then show ?thesis
      using ok later by (auto simp add: p1_def param_ok_def split: option.splits)
  qed
  show ?thesis
  proof (cases "transitionStart p1")
    case None
    then show ?thesis using ok1 by (simp add: update_param_def Let_def p1_def [symmetric])
  next
    case (Some start)
    show ?thesis
    proof (cases "ts < start + transitionDuration p1")
      case False
      then show ?thesis using ok1 Some
        by (simp add: update_param_def Let_def p1_def [symmetric])
    next
      case True
      define m where "m = min ((ts - start) / transitionDuration p1) 0.1"
      have s: "start \<le> ts" "0 < transitionDuration p1"
        using ok1 Some by (simp_all add: param_ok_def)
      then have "0 \<le> (ts - start) / transitionDuration p1" by simp
      then have m: "0 \<le> m" "m \<le> 1" by (simp_all add: m_def)
      have b: "cp_min p1 \<le> cp_current p1" "cp_current p1 \<le> cp_max p1"
        "cp_min p1 \<le> cp_target p1" "cp_target p1 \<le> cp_max p1"
        using ok1 by (simp_all add: param_ok_def)
      have eq: "update_param ts d p =
                  p1\<lparr>cp_current := cp_current p1 + (cp_target p1 - cp_current p1) * m\<rparr>"
        using True Some by (simp add: update_param_def Let_def p1_def [symmetric] m_def)
      show ?thesis
        unfolding eq using ok1 toward_target [OF b m]
        by (simp add: param_ok_def split: option.splits)
    qed
  qed
qed

lemma params_forEach_ok:
  assumes "list_all (param_ok dp T) ps" and "T \<le> ts" and "\<forall>i. random_param_draws (ds i)"
  shows "list_all (param_ok dp ts) (fst (params_forEach ts ds i ps gp))"
  using assms
proof (induction ps arbitrary: i gp)
  case Nil
  then show ?case by simp
next
  case (Cons p ps)
  have "param_ok dp ts (update_param ts (ds i) p)"
    using Cons.prems by (intro update_param_ok [of dp T]) simp_all
  moreover have "list_all (param_ok dp ts)
      (fst (params_forEach ts ds (Suc i) ps (apply_param (update_param ts (ds i) p) gp)))"
    using Cons.prems by (intro Cons.IH) simp_all
  ultimately show ?case
    by (simp add: Let_def split_beta)
qed

lemma updateParameters_ok:
  assumes "controller_ok T c" and "T \<le> ts" and "\<forall>i. random_param_draws (ds i)"
  shows "controller_ok ts (updateParameters ts ds c)"
  using params_forEach_ok [of "cc_defaultParams c" T "chaosParams c" ts ds 0 "cc_gameParams c"]
    assms
  by (simp add: controller_ok_def updateParameters_def split_beta)

text \<open>The colour pass and the control inversion leave the entries and the gate alone.\<close>

lemma updateColors_frame:
  "chaosParams (updateColors ts ds c) = chaosParams c \<and>
   cc_defaultParams (updateColors ts ds c) = cc_defaultParams c \<and>
   startTime (updateColors ts ds c) = startTime c \<and>
   chaosStartDelay (updateColors ts ds c) = chaosStartDelay c"
  by (simp add: updateColors_def split_beta)

lemma updateInvertedControls_frame:
  "chaosParams (updateInvertedControls ts d c) = chaosParams c \<and>
   cc_defaultParams (updateInvertedControls ts d c) = cc_defaultParams c \<and>
   startTime (updateInvertedControls ts d c) = startTime c \<and>
   chaosStartDelay (updateInvertedControls ts d c) = chaosStartDelay c"
  by (simp add: updateInvertedControls_def Let_def)

lemma updateParameters_frame:
  "chaosParams (updateParameters ts ds c) =
     fst (params_forEach ts ds 0 (chaosParams c) (cc_gameParams c)) \<and>
   startTime (updateParameters ts ds c) = startTime c \<and>
   chaosStartDelay (updateParameters ts ds c) = chaosStartDelay c"
  by (simp add: updateParameters_def split_beta)

lemma param_ok_later: "param_ok dp T p \<Longrightarrow> T \<le> ts \<Longrightarrow> param_ok dp ts p"
  by (auto simp add: param_ok_def split: option.splits)

lemma controller_ok_later: "controller_ok T c \<Longrightarrow> T \<le> ts \<Longrightarrow> controller_ok ts c"
  by (auto simp add: controller_ok_def list_all_iff intro: param_ok_later)

lemma chaos_update_ok:
  assumes ok: "controller_ok T c" and later: "T \<le> ts"
      and rnd: "\<forall>i. random_param_draws (cd_params d i)"
  shows "controller_ok ts (chaos_update ts active d c)"
proof -
  define c1 where "c1 = (if startTime c = 0 then c\<lparr>startTime := ts\<rparr> else c)"
  have c1: "controller_ok T c1" using ok by (simp add: c1_def controller_ok_def)
  have a: "controller_ok ts c" using ok later by (rule controller_ok_later)
  have b: "controller_ok ts c1" using c1 later by (rule controller_ok_later)
  have "controller_ok ts (updateParameters ts (cd_params d) c1)"
    using c1 later rnd by (rule updateParameters_ok)
  then have "controller_ok ts (updateInvertedControls ts (cd_invert d)
                   (updateColors ts (cd_colors d) (updateParameters ts (cd_params d) c1)))"
    by (simp add: controller_ok_def updateInvertedControls_frame updateColors_frame)
  with a b show ?thesis
    unfolding chaos_update_def Let_def c1_def [symmetric] by simp
qed

lemma chaos_reset_ok:
  assumes ok: "controller_ok T c"
  shows "controller_ok T (chaos_reset c)"
  using ok
  by (auto simp add: controller_ok_def chaos_reset_def Let_def list_all_iff param_ok_def
        split: option.splits)

lemma chaos_calls_ok:
  assumes "controller_ok T c" and "sorted (timestamps calls)"
      and "\<forall>t \<in> set (timestamps calls). T \<le> t" and "list_all random_call calls"
  shows "\<exists>T'. controller_ok T' (chaos_calls calls c)"
  using assms
proof (induction calls arbitrary: T c)
  case Nil
  then show ?case by auto
next
  case (Cons e rest)
  show ?case
  proof (cases e)
    case (CallUpdate ts d)
    have "controller_ok ts (chaos_update ts True d c)"
      using Cons.prems CallUpdate by (intro chaos_update_ok [of T]) simp_all
    moreover have "sorted (timestamps rest)" "\<forall>t \<in> set (timestamps rest). ts \<le> t"
      "list_all random_call rest"
      using Cons.prems CallUpdate by simp_all
    ultimately show ?thesis
      using Cons.IH [of ts "chaos_update ts True d c"] CallUpdate by simp
  next
    case CallReset
    have "controller_ok T (chaos_reset c)" using Cons.prems by (intro chaos_reset_ok) simp
    then show ?thesis
      using Cons.IH [of T "chaos_reset c"] Cons.prems CallReset by simp
  qed
qed

lemma new_ChaosController_ok:
  "defaults_in_bounds dp \<Longrightarrow> controller_ok T (new_ChaosController dp)"
  by (simp add: controller_ok_def new_ChaosController_def new_chaos_param_def param_ok_def
        defaults_in_bounds_def get_number_def num_or_def)

text \<open>
  C1, amended.  Take a controller built from default parameters that lie within the
  bounds of the constructor's table, and any sequence of \<open>update\<close> and \<open>reset\<close> calls
  in which the timestamps of the \<open>update\<close> calls never decrease (as the timestamps
  of animation frames do) and every draw is a value of \<open>Math.random()\<close>.  Then after
  the sequence every entry of \<open>chaosParams\<close> has \<open>min \<le> current \<le> max\<close>.  A prefix
  of such a sequence is such a sequence, so the bound holds after each call.
\<close>

theorem chaos_parameters_stay_in_bounds:
  assumes "defaults_in_bounds dp" and "sorted (timestamps calls)"
      and "list_all random_call calls"
  shows "list_all (\<lambda>p. cp_min p \<le> cp_current p \<and> cp_current p \<le> cp_max p)
           (chaosParams (chaos_calls calls (new_ChaosController dp)))"
proof -
  obtain T0 :: real where T0: "\<forall>t \<in> set (timestamps calls). T0 \<le> t"
  proof (cases "timestamps calls")
    case Nil
    then show ?thesis using that [of 0] by simp
  next
    case (Cons t ts)
    then show ?thesis using that [of t] assms(2) by auto
  qed
  obtain T' where "controller_ok T' (chaos_calls calls (new_ChaosController dp))"
    using chaos_calls_ok [OF new_ChaosController_ok [OF assms(1)] assms(2) T0 assms(3)] by blast
  then show ?thesis
    by (simp add: controller_ok_def param_ok_def list_all_iff)
qed

text \<open>
  The theorem at the default parameters of the game, on two frames eleven seconds
  apart (the second one past the start delay), a reset, and a later frame.
\<close>

theorem chaos_parameters_stay_in_bounds_witness:
  "defaults_in_bounds defaultParams \<and>
   sorted (timestamps [CallUpdate 1000 (constant_draws 0.5), CallUpdate 12000 (constant_draws 0.5),
                      CallReset, CallUpdate 12016 (constant_draws 0.5)]) \<and>
   list_all random_call [CallUpdate 1000 (constant_draws 0.5), CallUpdate 12000 (constant_draws 0.5),
                      CallReset, CallUpdate 12016 (constant_draws 0.5)] \<and>
   list_all (\<lambda>p. cp_min p \<le> cp_current p \<and> cp_current p \<le> cp_max p)
     (chaosParams (chaos_calls
        [CallUpdate 1000 (constant_draws 0.5), CallUpdate 12000 (constant_draws 0.5),
         CallReset, CallUpdate 12016 (constant_draws 0.5)]
        (new_ChaosController defaultParams)))"
proof -
  have h1: "defaults_in_bounds defaultParams"
    by (simp add: defaults_in_bounds_def defaultParams_def)
  have h2: "sorted (timestamps [CallUpdate 1000 (constant_draws 0.5),
                      CallUpdate 12000 (constant_draws 0.5),
                      CallReset, CallUpdate 12016 (constant_draws 0.5)])"
    by simp
  have h3: "list_all random_call [CallUpdate 1000 (constant_draws 0.5),
                      CallUpdate 12000 (constant_draws 0.5),
                      CallReset, CallUpdate 12016 (constant_draws 0.5)]"
    by (simp add: constant_draws_def random_param_draws_def is_random_def)
  from chaos_parameters_stay_in_bounds [OF h1 h2 h3] h1 h2 h3 show ?thesis by blast
qed

text \<open>
  The claim as stated, for timestamps in any order, fails.  Three updates at
  \<open>1\<close>, \<open>100001\<close> and \<open>20001\<close> ms, every draw being \<open>0\<close>: the second one re-rolls
  \<open>ballSpeed\<close> (target \<open>2\<close>, transition started at \<open>100001\<close> for \<open>2000\<close> ms); the third
  one computes the progress \<open>(20001 - 100001) / 2000 = - 40\<close>, which
  \<open>Math.min(progress, 0.1)\<close> lets through, and moves \<open>current\<close> from \<open>3.5\<close> to
  \<open>3.5 + (2 - 3.5) * (- 40) = 63.5\<close>, above the maximum \<open>7\<close>.
\<close>

lemma chaos_update_params:
  "chaosParams (chaos_update ts True d c) =
     (if ts - (if startTime c = 0 then ts else startTime c) < chaosStartDelay c
      then chaosParams c
      else fst (params_forEach ts (cd_params d) 0 (chaosParams c)
                  (cc_gameParams (if startTime c = 0 then c\<lparr>startTime := ts\<rparr> else c))))"
  "startTime (chaos_update ts True d c) = (if startTime c = 0 then ts else startTime c)"
  "chaosStartDelay (chaos_update ts True d c) = chaosStartDelay c"
  by (simp_all add: chaos_update_def Let_def updateInvertedControls_frame updateColors_frame
        updateParameters_frame)

lemma params_forEach_Cons:
  "fst (params_forEach ts ds i (p # ps) gp) =
     update_param ts (ds i) p #
     fst (params_forEach ts ds (Suc i) ps (apply_param (update_param ts (ds i) p) gp))"
  by (simp add: Let_def split_beta)

theorem non_monotone_timestamps_counterexample:
  "defaults_in_bounds defaultParams \<and>
   list_all random_call
     [CallUpdate 1 (constant_draws 0), CallUpdate 100001 (constant_draws 0),
      CallUpdate 20001 (constant_draws 0)] \<and>
   cp_name (hd (chaosParams (chaos_calls
     [CallUpdate 1 (constant_draws 0), CallUpdate 100001 (constant_draws 0),
      CallUpdate 20001 (constant_draws 0)] (new_ChaosController defaultParams)))) = ''ballSpeed'' \<and>
   cp_current (hd (chaosParams (chaos_calls
     [CallUpdate 1 (constant_draws 0), CallUpdate 100001 (constant_draws 0),
      CallUpdate 20001 (constant_draws 0)] (new_ChaosController defaultParams)))) = 63.5 \<and>
   cp_max (hd (chaosParams (chaos_calls
     [CallUpdate 1 (constant_draws 0), CallUpdate 100001 (constant_draws 0),
      CallUpdate 20001 (constant_draws 0)] (new_ChaosController defaultParams)))) = 7 \<and>
   \<not> cp_current (hd (chaosParams (chaos_calls
     [CallUpdate 1 (constant_draws 0), CallUpdate 100001 (constant_draws 0),
      CallUpdate 20001 (constant_draws 0)] (new_ChaosController defaultParams))))
     \<le> cp_max (hd (chaosParams (chaos_calls
     [CallUpdate 1 (constant_draws 0), CallUpdate 100001 (constant_draws 0),
      CallUpdate 20001 (constant_draws 0)] (new_ChaosController defaultParams))))"
  by (simp add: defaults_in_bounds_def defaultParams_def random_param_draws_def is_random_def
        constant_draws_def chaos_update_params params_forEach_Cons update_param_def Let_def
        new_ChaosController_def new_chaos_param_def del: params_forEach.simps)

section \<open>Ball: paddle collisions\<close>

lemma handlePaddleCollision_horizontal:
  assumes "handlePaddleCollision p r b = (True, b')" and "horizontal_collision p r b"
  shows "ball_dx b' =
           (if \<bar>ball_dx b\<bar> < 2 then (if ball_dx b < 0 then 2 else - 2) else - ball_dx b) * 1.1"
    and "ball_dy b' =
           ((ball_y b - paddle_y p) / paddle_height p - 0.5) * 2 * \<bar>ball_dx b\<bar> * 1.1"
  using assms
  by (auto simp add: handlePaddleCollision_def Let_def split: if_splits)

lemma handlePaddleCollision_vertical:
  assumes "handlePaddleCollision p r b = (True, b')" and "\<not> horizontal_collision p r b"
  shows "ball_dx b' = ball_dx b * 1.1" and "ball_dy b' = - ball_dy b * 1.1"
  using assms
  by (auto simp add: handlePaddleCollision_def Let_def split: if_splits)

text \<open>The paddle checks of \<open>update\<close> register a hit only on a ball moving towards the paddle.\<close>

lemma handlePaddleCollision_miss:
  "\<not> fst (handlePaddleCollision p r b) \<Longrightarrow> snd (handlePaddleCollision p r b) = b"
  by (cases "ball_overlaps_paddle p r b") (simp_all add: handlePaddleCollision_def Let_def)

lemma check_paddles_guard:
  assumes "check_paddles pl pr r b = (hitLeft, hitRight, b')"
  shows "(hitLeft \<longrightarrow> ball_dx b < 0) \<and> (hitRight \<and> \<not> hitLeft \<longrightarrow> 0 < ball_dx b)"
proof -
  define l where "l = (if ball_dx b < 0 then handlePaddleCollision pl r b else (False, b))"
  define rt where "rt = (if ball_dx (snd l) > 0 then handlePaddleCollision pr r (snd l)
                             else (False, snd l))"
  have "check_paddles pl pr r b = (fst l, fst rt, snd rt)"
    unfolding check_paddles_def Let_def split_beta l_def [symmetric] rt_def [symmetric] ..
  with assms have hl: "hitLeft = fst l" and hr: "hitRight = fst rt" by simp_all
  have left: "ball_dx b < 0" if "fst l"
    using that unfolding l_def by (cases "ball_dx b < 0") simp_all
  have keep: "snd l = b" if "\<not> fst l"
    using that handlePaddleCollision_miss [of pl r b] unfolding l_def
    by (cases "ball_dx b < 0") simp_all
  have right: "0 < ball_dx b" if "fst rt" "\<not> fst l"
  proof -
    from that(1) have "0 < ball_dx (snd l)"
      unfolding rt_def by (cases "0 < ball_dx (snd l)") simp_all
    then show ?thesis using keep [OF that(2)] by simp
  qed
  show ?thesis unfolding hl hr using left right by blast
qed

text \<open>
  C2, amended.  \<open>update\<close> registers a hit on the left paddle only for a ball with
  \<open>dx < 0\<close>, and a hit on the right paddle alone only for a ball with \<open>dx > 0\<close>.  A
  registered collision resolves on one of two branches.  On the horizontal branch
  (the least penetration is through the paddle's left or right side) \<open>dx\<close> changes
  sign and ends with magnitude at least \<open>2.2\<close>: positive after a hit that was tried
  because \<open>dx < 0\<close> (the left paddle), negative after one tried because \<open>dx > 0\<close>
  (the right paddle).  On the vertical branch (the least penetration is through the
  paddle's top or bottom) \<open>dx\<close> is only scaled by \<open>1.1\<close> and keeps its sign: the ball
  goes on moving towards the paddle's side of the field.
\<close>

theorem paddle_collision_direction:
  "(check_paddles pl pr r b = (hitLeft, hitRight, b2) \<longrightarrow>
      (hitLeft \<longrightarrow> ball_dx b < 0) \<and> (hitRight \<and> \<not> hitLeft \<longrightarrow> 0 < ball_dx b)) \<and>
   (handlePaddleCollision p r b = (True, b') \<longrightarrow>
      (horizontal_collision p r b \<longrightarrow>
         (ball_dx b < 0 \<longrightarrow> ball_dx b' \<ge> 2.2) \<and> (ball_dx b > 0 \<longrightarrow> ball_dx b' \<le> - 2.2)) \<and>
      (\<not> horizontal_collision p r b \<longrightarrow> ball_dx b' = 1.1 * ball_dx b))"
proof (intro conjI impI)
  assume "check_paddles pl pr r b = (hitLeft, hitRight, b2)"
  from check_paddles_guard [OF this]
  show "hitLeft \<Longrightarrow> ball_dx b < 0" and "hitRight \<and> \<not> hitLeft \<Longrightarrow> 0 < ball_dx b"
    by simp_all
next
  assume hit: "handlePaddleCollision p r b = (True, b')"
  show "ball_dx b' \<ge> 2.2" if "horizontal_collision p r b" "ball_dx b < 0"
    using handlePaddleCollision_horizontal(1) [OF hit that(1)] that(2)
    by (auto split: if_splits)
  show "ball_dx b' \<le> - 2.2" if "horizontal_collision p r b" "ball_dx b > 0"
    using handlePaddleCollision_horizontal(1) [OF hit that(1)] that(2)
    by (auto split: if_splits)
  show "ball_dx b' = 1.1 * ball_dx b" if "\<not> horizontal_collision p r b"
    using handlePaddleCollision_vertical(1) [OF hit that] by simp
qed

text \<open>
  The theorem on a ball that reaches the right side of the left paddle, moving left
  at the height of the paddle's centre.
\<close>

theorem paddle_collision_direction_witness:
  "check_paddles (scenario_paddleLeft 190) (scenario_paddleRight 190) 5
       (scenario_ball 68 240 (- 3) 5) =
     (True, False,
      snd (snd (check_paddles (scenario_paddleLeft 190) (scenario_paddleRight 190) 5
                  (scenario_ball 68 240 (- 3) 5)))) \<and>
   handlePaddleCollision (scenario_paddleLeft 190) 5 (scenario_ball 68 240 (- 3) 5) =
     (True, snd (handlePaddleCollision (scenario_paddleLeft 190) 5 (scenario_ball 68 240 (- 3) 5))) \<and>
   horizontal_collision (scenario_paddleLeft 190) 5 (scenario_ball 68 240 (- 3) 5) \<and>
   ball_dx (scenario_ball 68 240 (- 3) 5) < 0 \<and>
   ball_dx (snd (handlePaddleCollision (scenario_paddleLeft 190) 5 (scenario_ball 68 240 (- 3) 5)))
     \<ge> 2.2"
proof -
  have h0: "check_paddles (scenario_paddleLeft 190) (scenario_paddleRight 190) 5
       (scenario_ball 68 240 (- 3) 5) =
     (True, False,
      snd (snd (check_paddles (scenario_paddleLeft 190) (scenario_paddleRight 190) 5
                  (scenario_ball 68 240 (- 3) 5))))"
    by (simp add: scenario_eval collision_eval check_paddles_def)
  have h1: "handlePaddleCollision (scenario_paddleLeft 190) 5 (scenario_ball 68 240 (- 3) 5) =
     (True, snd (handlePaddleCollision (scenario_paddleLeft 190) 5 (scenario_ball 68 240 (- 3) 5)))"
    by (simp add: scenario_eval collision_eval)
  have h2: "horizontal_collision (scenario_paddleLeft 190) 5 (scenario_ball 68 240 (- 3) 5)"
    by (simp add: scenario_eval collision_eval)
  from paddle_collision_direction
         [of "scenario_paddleLeft 190" "scenario_paddleRight 190" 5
             "scenario_ball 68 240 (- 3) 5" True False
             "snd (snd (check_paddles (scenario_paddleLeft 190) (scenario_paddleRight 190) 5
                  (scenario_ball 68 240 (- 3) 5)))"
             "scenario_paddleLeft 190"
             "snd (handlePaddleCollision (scenario_paddleLeft 190) 5 (scenario_ball 68 240 (- 3) 5))"]
    h0 h1 h2
  show ?thesis by blast
qed

text \<open>
  The claim as stated fails on the vertical branch, where \<open>dy\<close> is negated and not
  forced away from the face that was hit.  A ball of radius \<open>5\<close> at
  \<open>(70, 197.5)\<close> moves left with \<open>dx = - 3\<close>, \<open>dy = 0\<close>, no gravity; the left paddle
  spans \<open>x\<close> from \<open>50\<close> to \<open>65\<close> and \<open>y\<close> from \<open>200\<close> to \<open>300\<close>.  The first \<open>update\<close>
  registers a hit on the left paddle through its top (least overlap \<open>2.5\<close>): the ball
  is put at \<open>y = 195\<close>, \<open>dy\<close> stays \<open>0\<close> and \<open>dx\<close> becomes \<open>- 3.3\<close>, still towards the
  paddle.  The second \<open>update\<close> registers a hit on the same paddle again: two
  consecutive collisions with no sign change of either velocity component.
\<close>

theorem sliding_ball_counterexample:
  "res_hitLeft
     (update 16 (scenario_paddleLeft 200) (scenario_paddleRight 200) 0 False scenario_draws
        (scenario_ball 70 197.5 (- 3) 0)) \<and>
   ball_dx (scenario_ball 70 197.5 (- 3) 0) = - 3 \<and>
   ball_dy (scenario_ball 70 197.5 (- 3) 0) = 0 \<and>
   ball_dx (res_ball
     (update 16 (scenario_paddleLeft 200) (scenario_paddleRight 200) 0 False scenario_draws
        (scenario_ball 70 197.5 (- 3) 0))) = - 3.3 \<and>
   ball_dy (res_ball
     (update 16 (scenario_paddleLeft 200) (scenario_paddleRight 200) 0 False scenario_draws
        (scenario_ball 70 197.5 (- 3) 0))) = 0 \<and>
   res_hitLeft
     (update 32 (scenario_paddleLeft 200) (scenario_paddleRight 200) 3 False scenario_draws
        (res_ball
          (update 16 (scenario_paddleLeft 200) (scenario_paddleRight 200) 0 False scenario_draws
             (scenario_ball 70 197.5 (- 3) 0))))"
  by (simp add: scenario_eval collision_eval update_eval)

lemma consecutive_hits_dx:
  "consecutive_hits hs b = Some b' \<Longrightarrow> 1.1 ^ length hs * \<bar>ball_dx b\<bar> \<le> \<bar>ball_dx b'\<bar>"
proof (induction hs arbitrary: b)
  case Nil
  then show ?case by simp
next
  case (Cons h rest)
  obtain x y p r where h: "h = (x, y, p, r)" by (cases h) auto
  define b0 where "b0 = b\<lparr>ball_x := x, ball_y := y\<rparr>"
  obtain hit b1 where c: "handlePaddleCollision p r b0 = (hit, b1)"
    by (cases "handlePaddleCollision p r b0") auto
  from Cons.prems h c have hit: "hit" and rest: "consecutive_hits rest b1 = Some b'"
    by (auto simp add: b0_def split: if_splits bool.splits)
  have one: "1.1 * \<bar>ball_dx b\<bar> \<le> \<bar>ball_dx b1\<bar>"
  proof (cases "horizontal_collision p r b0")
    case True
    from handlePaddleCollision_horizontal(1) [OF c [unfolded hit [THEN eqTrueI]] True]
    show ?thesis by (auto simp add: b0_def abs_mult split: if_splits)
  next
    case False
    from handlePaddleCollision_vertical(1) [OF c [unfolded hit [THEN eqTrueI]] False]
    show ?thesis by (simp add: b0_def abs_mult)
  qed
  have "1.1 ^ length (h # rest) * \<bar>ball_dx b\<bar> = 1.1 ^ length rest * (1.1 * \<bar>ball_dx b\<bar>)"
    by simp
  also have "\<dots> \<le> 1.1 ^ length rest * \<bar>ball_dx b1\<bar>"
    using one by (intro mult_left_mono) simp_all
  also have "\<dots> \<le> \<bar>ball_dx b'\<bar>" using Cons.IH [OF rest] .
  finally show ?case .
qed

text \<open>
  C4, amended.  A registered paddle collision ends by multiplying both velocity
  components by \<open>1.1\<close>, but what it multiplies differs by branch.  On the horizontal
  branch \<open>dx\<close> has first been raised to magnitude \<open>2\<close> if it was smaller, so
  \<open>|dx|\<close> becomes \<open>1.1 * max(2, |dx|)\<close>, and \<open>dy\<close> has been replaced by a value
  derived from where the ball struck the paddle, so \<open>|dy|\<close> becomes
  \<open>1.1 * 2 * |hitPosition - 0.5| * |dx|\<close> whatever it was (for a paddle of nonzero
  height).  On the vertical branch both magnitudes grow by exactly 10%.  Hence
  \<open>|dx|\<close> grows by a factor of at least \<open>1.1\<close> over every collision and of at least
  \<open>1.1 ^ N\<close> over \<open>N\<close> consecutive collisions; \<open>|dy|\<close> is not monotone.
\<close>

theorem paddle_collision_speeds:
  "(handlePaddleCollision p r b = (True, b') \<longrightarrow>
      1.1 * \<bar>ball_dx b\<bar> \<le> \<bar>ball_dx b'\<bar> \<and> \<bar>ball_dx b\<bar> \<le> \<bar>ball_dx b'\<bar> \<and>
      (horizontal_collision p r b \<longrightarrow>
         \<bar>ball_dx b'\<bar> = 1.1 * max 2 \<bar>ball_dx b\<bar> \<and>
         (paddle_height p \<noteq> 0 \<longrightarrow>
            ball_dy b' =
              1.1 * (((ball_y b - paddle_y p) / paddle_height p - 0.5) * 2 * \<bar>ball_dx b\<bar>))) \<and>
      (\<not> horizontal_collision p r b \<longrightarrow>
         \<bar>ball_dx b'\<bar> = 1.1 * \<bar>ball_dx b\<bar> \<and> \<bar>ball_dy b'\<bar> = 1.1 * \<bar>ball_dy b\<bar>)) \<and>
   (consecutive_hits hs b = Some b'' \<longrightarrow>
      1.1 ^ length hs * \<bar>ball_dx b\<bar> \<le> \<bar>ball_dx b''\<bar> \<and> \<bar>ball_dx b\<bar> \<le> \<bar>ball_dx b''\<bar>)"
proof (intro conjI impI)
  assume hit: "handlePaddleCollision p r b = (True, b')"
  show "1.1 * \<bar>ball_dx b\<bar> \<le> \<bar>ball_dx b'\<bar>"
    using handlePaddleCollision_horizontal(1) [OF hit] handlePaddleCollision_vertical(1) [OF hit]
    by (cases "horizontal_collision p r b") (auto simp add: abs_mult split: if_splits)
  then show "\<bar>ball_dx b\<bar> \<le> \<bar>ball_dx b'\<bar>" by simp
  show "\<bar>ball_dx b'\<bar> = 1.1 * max 2 \<bar>ball_dx b\<bar>" if "horizontal_collision p r b"
    using handlePaddleCollision_horizontal(1) [OF hit that]
    by (auto simp add: abs_mult split: if_splits)
  show "ball_dy b' = 1.1 * (((ball_y b - paddle_y p) / paddle_height p - 0.5) * 2 * \<bar>ball_dx b\<bar>)"
    if "horizontal_collision p r b" "paddle_height p \<noteq> 0"
    using handlePaddleCollision_horizontal(2) [OF hit that(1)] by simp
  show "\<bar>ball_dx b'\<bar> = 1.1 * \<bar>ball_dx b\<bar>" if "\<not> horizontal_collision p r b"
    using handlePaddleCollision_vertical(1) [OF hit that] by (simp add: abs_mult)
  show "\<bar>ball_dy b'\<bar> = 1.1 * \<bar>ball_dy b\<bar>" if "\<not> horizontal_collision p r b"
    using handlePaddleCollision_vertical(2) [OF hit that] by (simp add: abs_mult)
next
  assume run: "consecutive_hits hs b = Some b''"
  show a: "1.1 ^ length hs * \<bar>ball_dx b\<bar> \<le> \<bar>ball_dx b''\<bar>"
    using run by (rule consecutive_hits_dx)
  have "(1 :: real) \<le> 1.1 ^ length hs" by (rule one_le_power) simp
  then have "1 * \<bar>ball_dx b\<bar> \<le> 1.1 ^ length hs * \<bar>ball_dx b\<bar>"
    by (intro mult_right_mono) simp_all
  with a show "\<bar>ball_dx b\<bar> \<le> \<bar>ball_dx b''\<bar>" by simp
qed

text \<open>
  The theorem on the hit of the previous example, alone and as a run of length one.
\<close>

theorem paddle_collision_speeds_witness:
  "handlePaddleCollision (scenario_paddleLeft 190) 5 (scenario_ball 68 240 (- 3) 5) =
     (True, snd (handlePaddleCollision (scenario_paddleLeft 190) 5 (scenario_ball 68 240 (- 3) 5))) \<and>
   horizontal_collision (scenario_paddleLeft 190) 5 (scenario_ball 68 240 (- 3) 5) \<and>
   paddle_height (scenario_paddleLeft 190) \<noteq> 0 \<and>
   consecutive_hits [(68, 240, scenario_paddleLeft 190, 5)] (scenario_ball 68 240 (- 3) 5) =
     Some (snd (handlePaddleCollision (scenario_paddleLeft 190) 5 (scenario_ball 68 240 (- 3) 5))) \<and>
   \<bar>ball_dx (snd (handlePaddleCollision (scenario_paddleLeft 190) 5
                    (scenario_ball 68 240 (- 3) 5)))\<bar>
     = 1.1 * max 2 \<bar>ball_dx (scenario_ball 68 240 (- 3) 5)\<bar> \<and>
   1.1 ^ length [(68 :: real, 240 :: real, scenario_paddleLeft 190, 5 :: real)]
       * \<bar>ball_dx (scenario_ball 68 240 (- 3) 5)\<bar>
     \<le> \<bar>ball_dx (snd (handlePaddleCollision (scenario_paddleLeft 190) 5
                         (scenario_ball 68 240 (- 3) 5)))\<bar>"
proof -
  have h1: "handlePaddleCollision (scenario_paddleLeft 190) 5 (scenario_ball 68 240 (- 3) 5) =
     (True, snd (handlePaddleCollision (scenario_paddleLeft 190) 5 (scenario_ball 68 240 (- 3) 5)))"
    by (simp add: scenario_eval collision_eval)
  have h2: "horizontal_collision (scenario_paddleLeft 190) 5 (scenario_ball 68 240 (- 3) 5)"
    by (simp add: scenario_eval collision_eval)
  have h4: "paddle_height (scenario_paddleLeft 190) \<noteq> 0"
    by (simp add: scenario_eval)
  have h3: "consecutive_hits [(68, 240, scenario_paddleLeft 190, 5)]
              (scenario_ball 68 240 (- 3) 5) =
     Some (snd (handlePaddleCollision (scenario_paddleLeft 190) 5 (scenario_ball 68 240 (- 3) 5)))"
    by (simp add: scenario_eval collision_eval)
  from paddle_collision_speeds
         [of "scenario_paddleLeft 190" 5 "scenario_ball 68 240 (- 3) 5"
             "snd (handlePaddleCollision (scenario_paddleLeft 190) 5 (scenario_ball 68 240 (- 3) 5))"
             "[(68, 240, scenario_paddleLeft 190, 5)]"
             "snd (handlePaddleCollision (scenario_paddleLeft 190) 5 (scenario_ball 68 240 (- 3) 5))"]
    h1 h2 h3 h4
  show ?thesis by blast
qed

text \<open>
  The claim as stated fails for \<open>dy\<close>.  The ball of the example strikes the paddle
  (which spans \<open>y\<close> from \<open>190\<close> to \<open>290\<close>) at its centre, \<open>y = 240\<close>, with \<open>dy = 5\<close>:
  the collision registers and leaves \<open>dy = 0\<close>.
\<close>

theorem centre_hit_counterexample:
  "fst (handlePaddleCollision (scenario_paddleLeft 190) 5 (scenario_ball 68 240 (- 3) 5)) \<and>
   \<bar>ball_dy (scenario_ball 68 240 (- 3) 5)\<bar> = 5 \<and>
   \<bar>ball_dy (snd (handlePaddleCollision (scenario_paddleLeft 190) 5
                    (scenario_ball 68 240 (- 3) 5)))\<bar> = 0 \<and>
   \<not> \<bar>ball_dy (scenario_ball 68 240 (- 3) 5)\<bar>
       \<le> \<bar>ball_dy (snd (handlePaddleCollision (scenario_paddleLeft 190) 5
                           (scenario_ball 68 240 (- 3) 5)))\<bar>"
  by (simp add: scenario_eval collision_eval)

section \<open>Ball: wall collisions\<close>




section \<open>Ball: reset\<close>

text \<open>The angle that \<open>reset\<close> draws lies within \<open>\<plusminus> \<pi> / 5\<close>, where the cosine is at least \<open>1 / 2\<close>.\<close>

lemma cos_reset_angle:
  assumes "is_random r"
  shows "1 / 2 \<le> cos ((r * pi / 2.5) - pi / 5)"
proof -
  let ?a = "(r * pi / 2.5) - pi / 5"
  have r: "0 \<le> r" "r < 1" using assms by (simp_all add: is_random_def)
  have eq: "?a = (2 * r - 1) * (pi / 5)" by (simp add: field_simps)
  have "\<bar>2 * r - 1\<bar> \<le> 1" using r by (simp add: abs_le_iff)
  then have "\<bar>2 * r - 1\<bar> * (pi / 5) \<le> 1 * (pi / 5)"
    by (intro mult_right_mono) simp_all
  then have "\<bar>?a\<bar> \<le> pi / 5"
    unfolding eq by (simp add: abs_mult)
  moreover have "pi / 5 \<le> pi / 3" by simp
  ultimately have bound: "\<bar>?a\<bar> \<le> pi / 3" by (rule order_trans)
  have "cos (pi / 3) \<le> cos \<bar>?a\<bar>"
    by (rule cos_monotone_0_pi_le) (use bound in auto)
  then show ?thesis by (simp add: cos_60)
qed

lemma reset_frame:
  "ball_canvas (reset rd b) = ball_canvas b \<and>
   ball_gameParams (reset rd b) = ball_gameParams b \<and>
   ball_size (reset rd b) = ball_size b"
  by (simp add: reset_def Let_def)

lemma reset_position:
  "ball_x (reset rd b) =
     field_x (getFieldOffset (ball_canvas b) (ball_gameParams b)) +
     field_width (getFieldOffset (ball_canvas b) (ball_gameParams b)) / 2"
  by (simp add: reset_def Let_def)

text \<open>
  C5, amended.  After every \<open>reset\<close>, whatever the draws and the parameters,
  \<open>|dx| \<ge> 1\<close>.  When \<open>ballSpeed \<ge> 2\<close> (the chaos controller keeps it within
  \<open>[2, 7]\<close>) and the draws are values of \<open>Math.random()\<close>, the speed is drawn from
  \<open>[max(2, 0.8 * ballSpeed), ballSpeed]\<close> and the magnitude of the velocity is that
  speed: it lies in that interval, hence in
  \<open>[max(2, 0.8 * ballSpeed) * 0.999, ballSpeed * 1.001]\<close>.
\<close>

theorem reset_velocity:
  "\<bar>ball_dx (reset rd b)\<bar> \<ge> 1 \<and>
   (is_random (draw_angle rd) \<and> is_random (draw_speed rd) \<and> 2 \<le> ballSpeed (ball_gameParams b) \<longrightarrow>
      max 2 (0.8 * ballSpeed (ball_gameParams b)) \<le> speed_of (reset rd b) \<and>
      speed_of (reset rd b) \<le> ballSpeed (ball_gameParams b) \<and>
      max 2 (0.8 * ballSpeed (ball_gameParams b)) * 0.999 \<le> speed_of (reset rd b) \<and>
      speed_of (reset rd b) \<le> ballSpeed (ball_gameParams b) * 1.001)"
proof (intro conjI impI)
  show "\<bar>ball_dx (reset rd b)\<bar> \<ge> 1"
    by (simp add: reset_def Let_def)
next
  assume h: "is_random (draw_angle rd) \<and> is_random (draw_speed rd) \<and>
             2 \<le> ballSpeed (ball_gameParams b)"
  define s where "s = ballSpeed (ball_gameParams b)"
  define a where "a = (draw_angle rd * pi / 2.5) - pi / 5"
  define v where "v = max 2 (s * 0.8) + draw_speed rd * (s - max 2 (s * 0.8))"
  define dir :: real where "dir = (if draw_direction rd < 0.5 then 1 else - 1)"
  have c: "1 / 2 \<le> cos a" unfolding a_def using h by (intro cos_reset_angle) simp
  have m: "max 2 (s * 0.8) \<le> s" using h by (simp add: s_def)
  have v1: "max 2 (s * 0.8) \<le> v" and v2: "v \<le> s"
    unfolding v_def using h draw_in_interval [OF m, of "draw_speed rd"] by simp_all
  have v0: "2 \<le> v" using v1 by simp
  have "1 / 2 * 2 \<le> cos a * v" using c v0 by (intro mult_mono) simp_all
  then have big: "1 \<le> cos a * v" by simp
  have absdir: "\<bar>dir\<bar> = 1" by (simp add: dir_def)
  have "0 \<le> cos a" "0 \<le> v" using c v0 by simp_all
  then have "\<bar>cos a * v * dir\<bar> = cos a * v" by (simp add: abs_mult absdir)
  then have noguard: "\<not> \<bar>cos a * v * dir\<bar> < 1" using big by simp
  have dx: "ball_dx (reset rd b) = cos a * v * dir" and dy: "ball_dy (reset rd b) = sin a * v"
    using noguard by (simp_all add: reset_def Let_def a_def v_def dir_def s_def)
  have dir2: "dir\<^sup>2 = 1" by (simp add: dir_def)
  have "(cos a * v * dir)\<^sup>2 = (cos a)\<^sup>2 * v\<^sup>2"
    by (simp add: power_mult_distrib dir2)
  moreover have "(sin a * v)\<^sup>2 = (sin a)\<^sup>2 * v\<^sup>2"
    by (simp add: power_mult_distrib)
  ultimately have "(cos a * v * dir)\<^sup>2 + (sin a * v)\<^sup>2 = ((cos a)\<^sup>2 + (sin a)\<^sup>2) * v\<^sup>2"
    by (simp only: distrib_right)
  also have "\<dots> = v\<^sup>2" by simp
  finally have "speed_of (reset rd b) = v" using v0 by (simp add: speed_of_def dx dy)
  moreover have "max 2 (0.8 * s) = max 2 (s * 0.8)" by (simp add: mult.commute)
  moreover have "max 2 (s * 0.8) * 0.999 \<le> max 2 (s * 0.8)" by simp
  moreover have "s \<le> s * 1.001" using h by (simp add: s_def)
  ultimately show "max 2 (0.8 * ballSpeed (ball_gameParams b)) \<le> speed_of (reset rd b)"
    "speed_of (reset rd b) \<le> ballSpeed (ball_gameParams b)"
    "max 2 (0.8 * ballSpeed (ball_gameParams b)) * 0.999 \<le> speed_of (reset rd b)"
    "speed_of (reset rd b) \<le> ballSpeed (ball_gameParams b) * 1.001"
    using v1 v2 unfolding s_def [symmetric] by linarith+
qed

text \<open>The theorem on a ball of the default game (\<open>ballSpeed = 3.5\<close>).\<close>

theorem reset_velocity_witness:
  "is_random (draw_angle \<lparr>draw_angle = 0.25, draw_direction = 0.75, draw_speed = 0.5\<rparr>) \<and>
   is_random (draw_speed \<lparr>draw_angle = 0.25, draw_direction = 0.75, draw_speed = 0.5\<rparr>) \<and>
   2 \<le> ballSpeed (ball_gameParams (scenario_ball 100 100 3 0)) \<and>
   1 \<le> \<bar>ball_dx (reset \<lparr>draw_angle = 0.25, draw_direction = 0.75, draw_speed = 0.5\<rparr>
                    (scenario_ball 100 100 3 0))\<bar> \<and>
   speed_of (reset \<lparr>draw_angle = 0.25, draw_direction = 0.75, draw_speed = 0.5\<rparr>
               (scenario_ball 100 100 3 0))
     \<le> ballSpeed (ball_gameParams (scenario_ball 100 100 3 0)) * 1.001"
proof -
  have h: "is_random (draw_angle \<lparr>draw_angle = 0.25, draw_direction = 0.75, draw_speed = 0.5\<rparr>) \<and>
           is_random (draw_speed \<lparr>draw_angle = 0.25, draw_direction = 0.75, draw_speed = 0.5\<rparr>) \<and>
           2 \<le> ballSpeed (ball_gameParams (scenario_ball 100 100 3 0))"
    by (simp add: is_random_def scenario_eval)
  from reset_velocity [of "\<lparr>draw_angle = 0.25, draw_direction = 0.75, draw_speed = 0.5\<rparr>"
                          "scenario_ball 100 100 3 0"] h
  show ?thesis by blast
qed

text \<open>
  The claim as stated fails for a \<open>ballSpeed\<close> below \<open>2\<close>.  With \<open>ballSpeed = 1\<close> the
  minimum speed \<open>max(2, 0.8)\<close> is \<open>2\<close>; the draws \<open>0.5\<close> for the angle (angle \<open>0\<close>)
  and \<open>0\<close> for the speed give \<open>dx = 2\<close>, \<open>dy = 0\<close>: a speed of \<open>2\<close>, above
  \<open>ballSpeed * 1.001\<close>.
\<close>

theorem slow_ball_counterexample:
  "is_random 0.5 \<and> is_random 0 \<and>
   speed_of (reset \<lparr>draw_angle = 0.5, draw_direction = 0, draw_speed = 0\<rparr>
              (new_Ball scenario_canvas (defaultParams\<lparr>ballSpeed := 1\<rparr>)
                 True no_options True no_draws)) = 2 \<and>
   ballSpeed (ball_gameParams
              (new_Ball scenario_canvas (defaultParams\<lparr>ballSpeed := 1\<rparr>)
                 True no_options True no_draws)) = 1 \<and>
   \<not> speed_of (reset \<lparr>draw_angle = 0.5, draw_direction = 0, draw_speed = 0\<rparr>
              (new_Ball scenario_canvas (defaultParams\<lparr>ballSpeed := 1\<rparr>)
                 True no_options True no_draws))
       \<le> ballSpeed (ball_gameParams
              (new_Ball scenario_canvas (defaultParams\<lparr>ballSpeed := 1\<rparr>)
                 True no_options True no_draws)) * 1.001"
  by (simp add: is_random_def speed_of_def reset_def no_options_def scenario_eval)

section \<open>Ball: scoring\<close>

lemma handleWallCollision_frame:
  "ball_canvas (snd (handleWallCollision f r b)) = ball_canvas b \<and>
   ball_gameParams (snd (handleWallCollision f r b)) = ball_gameParams b \<and>
   ball_size (snd (handleWallCollision f r b)) = ball_size b"
  by (simp add: handleWallCollision_def Let_def)

lemma handlePaddleCollision_frame:
  "ball_canvas (snd (handlePaddleCollision p r b)) = ball_canvas b \<and>
   ball_gameParams (snd (handlePaddleCollision p r b)) = ball_gameParams b \<and>
   ball_size (snd (handlePaddleCollision p r b)) = ball_size b"
  by (simp add: handlePaddleCollision_def Let_def)

lemma check_paddles_frame:
  "ball_canvas (snd (snd (check_paddles pl pr r b))) = ball_canvas b \<and>
   ball_gameParams (snd (snd (check_paddles pl pr r b))) = ball_gameParams b \<and>
   ball_size (snd (snd (check_paddles pl pr r b))) = ball_size b"
  by (simp add: check_paddles_def Let_def split_beta handlePaddleCollision_frame)

lemma push_trail_frame:
  "ball_canvas (push_trail b) = ball_canvas b \<and>
   ball_gameParams (push_trail b) = ball_gameParams b \<and>
   ball_size (push_trail b) = ball_size b"
  by (simp add: push_trail_def Let_def)

text \<open>
  After the left exit has fired the ball is either where it was, left of the field,
  or reset to the centre of the same field: in both cases not right of the field.
\<close>

lemma check_scoring_exclusive:
  assumes "0 \<le> r" and "0 \<le> field_width f"
      and "f = getFieldOffset (ball_canvas b) (ball_gameParams b)"
  shows "length (fst (check_scoring ts f r ud b)) \<le> 1 \<and>
         length (fst (snd (check_scoring ts f r ud b))) \<le> 1"
  using assms
  by (auto simp add: check_scoring_def score_exit_def Let_def reset_position)

text \<open>
  C6.  With a non-negative radius (\<open>size / 2\<close>) and a non-negative field width, one
  call of \<open>update\<close> takes at most one of its two scoring branches, and so calls
  \<open>updateScore\<close> at most once: it never scores on the left exit and then, after the
  reset inside that branch, on the right exit.
\<close>

theorem update_scoring_exclusive:
  assumes radius: "0 \<le> ball_size b / 2"
      and width: "0 \<le> field_width (getFieldOffset (ball_canvas b) (ball_gameParams b))"
  shows "length (res_exits (update ts pl pr shake cm ud b)) \<le> 1 \<and>
         length (res_scores (update ts pl pr shake cm ud b)) \<le> 1 \<and>
         res_exits (update ts pl pr shake cm ud b) \<noteq> [RightSide, LeftSide]"
proof (cases "lastScoreTime b > 0 \<and> ts - lastScoreTime b < resetDelay b")
  case True
  then show ?thesis by (simp add: update_def)
next
  case False
  define b1 where "b1 = (if lastScoreTime b > 0 then b\<lparr>lastScoreTime := 0\<rparr> else b)"
  define f where "f = getFieldOffset (ball_canvas b1) (ball_gameParams b1)"
  define r where "r = ball_size b1 / 2"
  define b2 where "b2 = push_trail b1"
  define b3 where "b3 = b2\<lparr>ball_dx := ball_dx b2 + num_or (ballGravityX (ball_gameParams b1)) 0,
                     ball_dy := ball_dy b2 + num_or (ballGravityY (ball_gameParams b1)) 0\<rparr>"
  define b4 where "b4 = b3\<lparr>ball_x := ball_x b3 + ball_dx b3, ball_y := ball_y b3 + ball_dy b3\<rparr>"
  define b5 where "b5 = snd (handleWallCollision f r b4)"
  define b7 where "b7 = snd (snd (check_paddles pl pr r b5))"
  have same1: "ball_canvas b1 = ball_canvas b" "ball_gameParams b1 = ball_gameParams b"
    "ball_size b1 = ball_size b" by (simp_all add: b1_def)
  have "ball_canvas b7 = ball_canvas b1 \<and> ball_gameParams b7 = ball_gameParams b1"
    by (simp add: b7_def b5_def b4_def b3_def b2_def check_paddles_frame
          handleWallCollision_frame push_trail_frame)
  then have f7: "f = getFieldOffset (ball_canvas b7) (ball_gameParams b7)"
    by (simp add: f_def)
  have r0: "0 \<le> r" using radius by (simp add: r_def same1)
  have w0: "0 \<le> field_width f" using width by (simp add: f_def same1)
  have excl: "length (fst (check_scoring ts f r ud b7)) \<le> 1 \<and>
        length (fst (snd (check_scoring ts f r ud b7))) \<le> 1"
    using check_scoring_exclusive [OF r0 w0 f7] .
  have ex: "res_exits (update ts pl pr shake cm ud b) = fst (check_scoring ts f r ud b7)"
    and sc: "res_scores (update ts pl pr shake cm ud b) = fst (snd (check_scoring ts f r ud b7))"
    unfolding update_def if_not_P [OF False]
    by (simp_all add: Let_def split_beta b7_def b5_def b4_def b3_def b2_def r_def
          f_def b1_def)
  show ?thesis using excl unfolding ex sc by auto
qed

text \<open>
  The theorem on a ball that leaves the reference field on the left (\<open>field.x = 40\<close>)
  behind the left paddle: the left exit fires, the ball is reset to \<open>x = 400\<close>, and
  the right exit does not fire.
\<close>

theorem update_scoring_exclusive_witness:
  "0 \<le> ball_size (scenario_ball 30 100 (- 3) 0) / 2 \<and>
   0 \<le> field_width (getFieldOffset (ball_canvas (scenario_ball 30 100 (- 3) 0))
                        (ball_gameParams (scenario_ball 30 100 (- 3) 0))) \<and>
   res_exits (update 1000 (scenario_paddleLeft 200) (scenario_paddleRight 200) 0 True
                scenario_draws (scenario_ball 30 100 (- 3) 0)) = [RightSide] \<and>
   ball_x (res_ball (update 1000 (scenario_paddleLeft 200) (scenario_paddleRight 200) 0 True
                scenario_draws (scenario_ball 30 100 (- 3) 0))) = 400 \<and>
   length (res_exits (update 1000 (scenario_paddleLeft 200) (scenario_paddleRight 200) 0 True
                        scenario_draws (scenario_ball 30 100 (- 3) 0))) \<le> 1 \<and>
   length (res_scores (update 1000 (scenario_paddleLeft 200) (scenario_paddleRight 200) 0 True
                         scenario_draws (scenario_ball 30 100 (- 3) 0))) \<le> 1"
proof -
  have h1: "0 \<le> ball_size (scenario_ball 30 100 (- 3) 0) / 2"
    by (simp add: scenario_eval)
  have h2: "0 \<le> field_width (getFieldOffset (ball_canvas (scenario_ball 30 100 (- 3) 0))
                        (ball_gameParams (scenario_ball 30 100 (- 3) 0)))"
    by (simp add: scenario_eval)
  have fired: "res_exits (update 1000 (scenario_paddleLeft 200) (scenario_paddleRight 200) 0 True
                scenario_draws (scenario_ball 30 100 (- 3) 0)) = [RightSide] \<and>
     ball_x (res_ball (update 1000 (scenario_paddleLeft 200) (scenario_paddleRight 200) 0 True
                scenario_draws (scenario_ball 30 100 (- 3) 0))) = 400"
    by (simp add: scenario_eval collision_eval update_eval reset_def)
  from update_scoring_exclusive
         [OF h1 h2, of 1000 "scenario_paddleLeft 200" "scenario_paddleRight 200" 0 True
            scenario_draws]
    h1 h2 fired
  show ?thesis by blast
qed

section \<open>Game: the ball population\<close>

lemma balls_loop_cap:
  "within_cap g \<Longrightarrow> within_cap (balls_loop ts pl pr ds i g)"
proof (induction ts pl pr ds i g rule: balls_loop.induct)
  case (1 timestamp pl pr ds i g)
  show ?case
  proof (cases "i < length (balls g)")
    case True
    have "within_cap (ball_step timestamp pl pr (ds i) i g)"
      using "1.prems" ball_step_length [of timestamp pl pr "ds i" i g]
      by (simp add: within_cap_def)
    with "1.IH" [OF True] True show ?thesis
      by (simp add: balls_loop.simps [of _ _ _ _ i g])
  next
    case False
    with "1.prems" show ?thesis by (simp add: balls_loop.simps [of _ _ _ _ i g])
  qed
qed

lemma flag_extra_balls_length: "length (flag_extra_balls bs) = length bs"
  by (simp add: flag_extra_balls_def split: list.split)

lemma reconcile_balls_cap: "within_cap g \<Longrightarrow> within_cap (reconcile_balls rd g)"
proof -
  assume g: "within_cap g"
  define g1 where "g1 = g\<lparr>balls := filter (\<lambda>b. \<not> needsRemoval b) (balls g)\<rparr>"
  define g2 where "g2 = (if length (balls g1) = 0
                then g1\<lparr>balls := balls g1 @
                          [new_Ball (game_canvas g1) (params g1) True no_options True rd]\<rparr>
                else g1)"
  have "length (filter (\<lambda>b. \<not> needsRemoval b) (balls g)) \<le> maxBalls g"
    by (rule order_trans [OF length_filter_le]) (use g in \<open>simp add: within_cap_def\<close>)
  with g have g1: "within_cap g1" by (simp add: within_cap_def g1_def)
  then have g2: "within_cap g2" by (simp add: within_cap_def g2_def)
  have "within_cap
         (if multiball (params g2) \<and> \<not> multiballActive g2 \<and> length (balls g2) < maxBalls g2
          then createMultiballSequence (g2\<lparr>multiballActive := True\<rparr>)
          else if \<not> multiball (params g2)
          then g2\<lparr>multiballActive := False, balls := flag_extra_balls (balls g2)\<rparr>
          else g2)"
    using g2 by (simp add: within_cap_def createMultiballSequence_def flag_extra_balls_length)
  then show ?thesis
    unfolding reconcile_balls_def Let_def g2_def g1_def .
qed

lemma gameLoop_cap: "within_cap g \<Longrightarrow> within_cap (gameLoop ts np pl pr ds rd g)"
proof -
  assume g: "within_cap g"
  have shaken: "within_cap (g\<lparr>shakeAmount := s\<rparr>)" for s
    using g by (simp add: within_cap_def)
  have rest: "within_cap
                (if gameActive h
                 then reconcile_balls rd (balls_loop ts pl pr ds 0 (h\<lparr>params := np\<rparr>))
                 else h)"
    if h: "within_cap h" for h
  proof -
    from h have "within_cap (h\<lparr>params := np\<rparr>)" by (simp add: within_cap_def)
    then have "within_cap (reconcile_balls rd (balls_loop ts pl pr ds 0 (h\<lparr>params := np\<rparr>)))"
      by (intro reconcile_balls_cap balls_loop_cap)
    with h show ?thesis by simp
  qed
  show ?thesis
    unfolding gameLoop_def Let_def by (rule rest) (simp add: shaken g)
qed

lemma createMultiball_cap: "within_cap g \<Longrightarrow> within_cap (createMultiball src t sd g)"
  using createMultiball_length [of src t sd g] by (simp add: within_cap_def)

lemma interval_callback_cap: "within_cap g \<Longrightarrow> within_cap (interval_callback r g)"
  by (simp add: within_cap_def interval_callback_def Let_def split: option.split)

lemma resizeCanvas_cap: "within_cap g \<Longrightarrow> within_cap (resizeCanvas w h g)"
  by (simp add: within_cap_def resizeCanvas_def Let_def)

lemma createGameObjects_cap: "maxBalls g = 5 \<Longrightarrow> within_cap (createGameObjects rd g)"
  by (simp add: within_cap_def createGameObjects_def Let_def)

lemma game_reset_cap: "within_cap g \<Longrightarrow> within_cap (game_reset rd g)"
  unfolding game_reset_def by (rule createGameObjects_cap) (simp add: within_cap_def)

lemma new_Game_cap: "within_cap (new_Game cv rd)"
  unfolding new_Game_def by (rule createGameObjects_cap) simp

lemma step_cap: "within_cap g \<Longrightarrow> within_cap (step e g)"
  by (cases e)
     (simp_all add: gameLoop_cap createMultiball_cap interval_callback_cap resizeCanvas_cap
        game_reset_cap)

lemma run_cap: "within_cap g \<Longrightarrow> within_cap (run es g)"
  by (induction es arbitrary: g) (simp_all add: step_cap)

text \<open>
  C7.  In every state that the game reaches from its initial state by frames,
  calls of \<open>createMultiball\<close>, firings of the spawn-sequence interval, resizes and
  resets, in any order and with any inputs and draws, the ball collection holds at
  most \<open>maxBalls = 5\<close> balls.
\<close>

theorem ball_population_bound:
  "length (balls (run es (new_Game cv rd))) \<le> 5 \<and> maxBalls (run es (new_Game cv rd)) = 5"
  using run_cap [OF new_Game_cap, of es cv rd] by (simp add: within_cap_def)

text \<open>
  The theorem on a frame in which multiball has switched on, followed by six firings
  of the interval and a paddle-hit spawn.
\<close>

theorem ball_population_bound_witness:
  "length (balls (run
      [Frame 16 (defaultParams\<lparr>multiball := True\<rparr>) (scenario_paddleLeft 200)
         (scenario_paddleRight 200)
         (\<lambda>i. \<lparr>ld_update = scenario_draws, ld_now = 1000,
               ld_spawn = \<lparr>draw_spawn_dx = 0.5, draw_spawn_sign = 0.5, draw_spawn_dy = 0.5\<rparr>\<rparr>)
         no_draws,
       IntervalFires 0.1, IntervalFires 0.2, IntervalFires 0.3, IntervalFires 0.4,
       IntervalFires 0.5, IntervalFires 0.6,
       Spawn (scenario_ball 100 100 3 1) 5000
         \<lparr>draw_spawn_dx = 0.5, draw_spawn_sign = 0.5, draw_spawn_dy = 0.5\<rparr>]
      (new_Game scenario_canvas no_draws))) \<le> 5"
  using ball_population_bound
    [of "[Frame 16 (defaultParams\<lparr>multiball := True\<rparr>) (scenario_paddleLeft 200)
         (scenario_paddleRight 200)
         (\<lambda>i. \<lparr>ld_update = scenario_draws, ld_now = 1000,
               ld_spawn = \<lparr>draw_spawn_dx = 0.5, draw_spawn_sign = 0.5, draw_spawn_dy = 0.5\<rparr>\<rparr>)
         no_draws,
       IntervalFires 0.1, IntervalFires 0.2, IntervalFires 0.3, IntervalFires 0.4,
       IntervalFires 0.5, IntervalFires 0.6,
       Spawn (scenario_ball 100 100 3 1) 5000
         \<lparr>draw_spawn_dx = 0.5, draw_spawn_sign = 0.5, draw_spawn_dy = 0.5\<rparr>]"
        scenario_canvas no_draws]
  by (rule conjunct1)

section \<open>Paddle: the AI movement\<close>




section \<open>Colours\<close>

subsection \<open>Reading a colour\<close>

lemma match_groups_Some:
  "match_groups t \<noteq> None \<Longrightarrow> length t = 6 \<and> list_all hex_class t"
  by (cases t rule: match_groups.cases) (auto split: if_splits)

lemma regex_exec_Some: "regex_exec s \<noteq> None \<Longrightarrow> is_hex_colour s"
proof (cases s)
  case Nil
  then show "regex_exec s \<noteq> None \<Longrightarrow> is_hex_colour s" by (simp add: regex_exec_def)
next
  case (Cons c t)
  assume m: "regex_exec s \<noteq> None"
  show "is_hex_colour s"
  proof (cases "c = CHR ''#''")
    case False
    with m Cons have "match_groups s \<noteq> None" by (simp add: regex_exec_def)
    then show ?thesis using match_groups_Some [of s] by (simp add: is_hex_colour_def)
  next
    case True
    show ?thesis
    proof (cases "match_groups t")
      case (Some g)
      then show ?thesis using match_groups_Some [of t] Cons True by (simp add: is_hex_colour_def)
    next
      case None
      with m Cons True have "match_groups s \<noteq> None" by (simp add: regex_exec_def)
      then show ?thesis using match_groups_Some [of s] by (simp add: is_hex_colour_def)
    qed
  qed
qed

lemma hexToRgb_fallback:
  "\<not> is_hex_colour s \<Longrightarrow> hexToRgb s = \<lparr>rgb_r = 255, rgb_g = 255, rgb_b = 255\<rparr>"
  using regex_exec_Some [of s] by (auto simp add: hexToRgb_def split: option.splits)

lemma digit_value_hex: "hex_class c \<Longrightarrow> digit_value c \<le> 15"
  by (auto simp add: hex_class_def digit_value_def Let_def)

lemma parseInt16_pair:
  "hex_class a \<Longrightarrow> hex_class b \<Longrightarrow> parseInt16 [a, b] \<le> 255"
  using digit_value_hex [of a] digit_value_hex [of b] by (simp add: parseInt16_def)

lemma match_groups_channels:
  assumes "match_groups t = Some (g1, g2, g3)"
  shows "parseInt16 g1 \<le> 255 \<and> parseInt16 g2 \<le> 255 \<and> parseInt16 g3 \<le> 255"
  using assms
  by (cases t rule: match_groups.cases) (auto split: if_splits simp add: parseInt16_pair)

lemma regex_exec_channels:
  assumes "regex_exec s = Some (g1, g2, g3)"
  shows "parseInt16 g1 \<le> 255 \<and> parseInt16 g2 \<le> 255 \<and> parseInt16 g3 \<le> 255"
  using assms match_groups_channels
  by (auto simp add: regex_exec_def split: list.splits if_splits option.splits)

text \<open>The channels that \<open>hexToRgb\<close> returns are whole numbers.\<close>

lemma hexToRgb_whole:
  "\<exists>R G B :: nat. R \<le> 255 \<and> G \<le> 255 \<and> B \<le> 255 \<and>
     hexToRgb s = \<lparr>rgb_r = real R, rgb_g = real G, rgb_b = real B\<rparr>"
proof (cases "regex_exec s")
  case None
  then have "hexToRgb s = \<lparr>rgb_r = real 255, rgb_g = real 255, rgb_b = real 255\<rparr>"
    by (simp add: hexToRgb_def)
  then show ?thesis by (intro exI [of _ 255]) simp
next
  case (Some g)
  obtain g1 g2 g3 where g: "g = (g1, g2, g3)" by (cases g) auto
  from regex_exec_channels [of s g1 g2 g3] Some g
  have "parseInt16 g1 \<le> 255 \<and> parseInt16 g2 \<le> 255 \<and> parseInt16 g3 \<le> 255" by simp
  moreover have "hexToRgb s = \<lparr>rgb_r = real (parseInt16 g1), rgb_g = real (parseInt16 g2),
                               rgb_b = real (parseInt16 g3)\<rparr>"
    using Some g by (simp add: hexToRgb_def)
  ultimately show ?thesis by blast
qed

subsection \<open>Printing in base 16\<close>

text \<open>A shift that stays below \<open>2 ^ 31\<close> is a multiplication.\<close>

lemma shl32_small:
  assumes "0 \<le> a" "a * 2 ^ n < 2 ^ 31"
  shows "shl32 a n = a * 2 ^ n"
proof -
  have "push_bit n (word_of_int a :: 32 word) = word_of_int (a * 2 ^ n)"
    by (simp add: push_bit_eq_mult)
  moreover have "sint (word_of_int (a * 2 ^ n) :: 32 word) = signed_take_bit 31 (a * 2 ^ n)"
    unfolding signed_of_int by simp
  moreover have "signed_take_bit 31 (a * 2 ^ n) = a * 2 ^ n"
  proof (rule signed_take_bit_int_eq_self)
    have "(0 :: int) \<le> a * 2 ^ n" using assms by simp
    then show "- (2 ^ 31) \<le> a * 2 ^ n" by simp
    show "a * 2 ^ n < 2 ^ 31" by (rule assms)
  qed
  ultimately show ?thesis by (simp add: shl32_def)
qed

lemma hex_digits_snoc:
  assumes "0 < a" "d < 16"
  shows "hex_digits (16 * a + d) = hex_digits a @ [hex_char d]"
proof -
  have "\<not> 16 * a + d < 16" using assms by simp
  moreover have "(16 * a + d) div 16 = a" "(16 * a + d) mod 16 = d" using assms by simp_all
  ultimately show ?thesis by (subst hex_digits.simps) simp
qed

text \<open>The seven digits of \<open>2 ^ 24 + r * 2 ^ 16 + g * 2 ^ 8 + b\<close>.\<close>

lemma hex_digits_colour:
  assumes "r \<le> 255" "g \<le> 255" "b \<le> 255"
  shows "hex_digits (16777216 + r * 65536 + g * 256 + b) =
           hex_char 1 # two_hex_digits r @ two_hex_digits g @ two_hex_digits b"
proof -
  define r1 r0 g1 g0 b1 b0 where "r1 = r div 16" and "r0 = r mod 16" and "g1 = g div 16"
    and "g0 = g mod 16" and "b1 = b div 16" and "b0 = b mod 16"
  define n1 n2 n3 n4 n5 n6 where "n1 = 16 * 1 + r1" and "n2 = 16 * n1 + r0"
    and "n3 = 16 * n2 + g1" and "n4 = 16 * n3 + g0" and "n5 = 16 * n4 + b1"
    and "n6 = 16 * n5 + b0"
  have r: "r = 16 * r1 + r0" and g: "g = 16 * g1 + g0" and b: "b = 16 * b1 + b0"
    by (simp_all add: r1_def r0_def g1_def g0_def b1_def b0_def)
  have lt: "r1 < 16" "r0 < 16" "g1 < 16" "g0 < 16" "b1 < 16" "b0 < 16"
    using assms by (simp_all add: r1_def r0_def g1_def g0_def b1_def b0_def div_less_iff_less_mult)
  have pos: "0 < n1" "0 < n2" "0 < n3" "0 < n4" "0 < n5"
    by (simp_all add: n1_def n2_def n3_def n4_def n5_def)
  have d0: "hex_digits 1 = [hex_char 1]" by simp
  have d1: "hex_digits n1 = hex_digits 1 @ [hex_char r1]"
    unfolding n1_def by (rule hex_digits_snoc) (simp_all add: lt)
  have d2: "hex_digits n2 = hex_digits n1 @ [hex_char r0]"
    unfolding n2_def by (rule hex_digits_snoc) (simp_all add: lt pos)
  have d3: "hex_digits n3 = hex_digits n2 @ [hex_char g1]"
    unfolding n3_def by (rule hex_digits_snoc) (simp_all add: lt pos)
  have d4: "hex_digits n4 = hex_digits n3 @ [hex_char g0]"
    unfolding n4_def by (rule hex_digits_snoc) (simp_all add: lt pos)
  have d5: "hex_digits n5 = hex_digits n4 @ [hex_char b1]"
    unfolding n5_def by (rule hex_digits_snoc) (simp_all add: lt pos)
  have d6: "hex_digits n6 = hex_digits n5 @ [hex_char b0]"
    unfolding n6_def by (rule hex_digits_snoc) (simp_all add: lt pos)
  have "16777216 + r * 65536 + g * 256 + b = n6"
    by (simp add: r g b n1_def n2_def n3_def n4_def n5_def n6_def)
  then have "hex_digits (16777216 + r * 65536 + g * 256 + b) = hex_digits n6" by (rule arg_cong)
  also have "\<dots> = [hex_char 1, hex_char r1, hex_char r0, hex_char g1, hex_char g0,
                     hex_char b1, hex_char b0]"
    by (simp only: d6 d5 d4 d3 d2 d1 d0 append.simps)
  finally show ?thesis
    by (simp add: two_hex_digits_def r1_def r0_def g1_def g0_def b1_def b0_def
          del: hex_digits.simps)
qed

lemma hex_chars_class: "list_all (\<lambda>d. hex_class (hex_char d)) [0..<16]"
  by code_simp

lemma hex_char_class: "d < 16 \<Longrightarrow> hex_class (hex_char d)"
  using hex_chars_class by (simp add: list_all_iff)

lemma two_hex_digits_class: "n \<le> 255 \<Longrightarrow> list_all hex_class (two_hex_digits n)"
  by (simp add: two_hex_digits_def hex_char_class div_less_iff_less_mult)

subsection \<open>Properties of the rounding\<close>

lemma pow2_pos: "0 < pow2 k"
  by (simp add: pow2_def)

lemma pow2_add1: "pow2 (k + 1) = 2 * pow2 k"
proof (cases "0 \<le> k")
  case True
  then show ?thesis by (simp add: pow2_def nat_add_distrib)
next
  case False
  then have "nat (- k) = Suc (nat (- (k + 1)))" by simp
  then show ?thesis using False by (simp add: pow2_def)
qed

lemma pow2_mono: "j \<le> k \<Longrightarrow> pow2 j \<le> pow2 k"
proof -
  assume "j \<le> k"
  then obtain n where k: "k = j + int n" by (metis zle_iff_zadd)
  have "pow2 j \<le> pow2 (j + int n)"
  proof (induction n)
    case 0
    show ?case by simp
  next
    case (Suc n)
    have "j + int (Suc n) = (j + int n) + 1" by simp
    then have "pow2 (j + int (Suc n)) = 2 * pow2 (j + int n)"
      by (simp only: pow2_add1)
    then show ?case using Suc pow2_pos [of "j + int n"] by simp
  qed
  then show ?thesis by (simp add: k)
qed

lemma binade_bounds: "0 < x \<Longrightarrow> pow2 (binade x) \<le> x \<and> x < pow2 (binade x + 1)"
proof (induction x rule: binade.induct)
  case (1 x)
  show ?case
  proof (cases "2 \<le> x")
    case True
    then have b: "binade x = binade (x / 2) + 1" by (subst binade.simps) simp
    from 1(1) [OF True] True
    have "pow2 (binade (x / 2)) \<le> x / 2 \<and> x / 2 < pow2 (binade (x / 2) + 1)" by simp
    then show ?thesis unfolding b pow2_add1 by simp
  next
    case False
    show ?thesis
    proof (cases "x < 1")
      case True
      with 1(3) have c: "0 < x \<and> x < 1" by simp
      have b: "binade x = binade (x * 2) - 1" using False c by (subst binade.simps) simp
      from 1(2) [OF False c] c
      have i: "pow2 (binade (x * 2)) \<le> x * 2 \<and> x * 2 < pow2 (binade (x * 2) + 1)" by simp
      have "pow2 (binade (x * 2)) = 2 * pow2 (binade (x * 2) - 1)"
        using pow2_add1 [of "binade (x * 2) - 1"] by simp
      moreover have "pow2 (binade (x * 2) + 1) = 2 * pow2 (binade (x * 2))"
        by (rule pow2_add1)
      ultimately show ?thesis using i unfolding b by simp
    next
      case ge: False
      have b: "binade x = 0" using False ge by (subst binade.simps) simp
      show ?thesis using False ge unfolding b by (simp add: pow2_def)
    qed
  qed
qed

lemma binade_less:
  assumes "0 < x" "x < pow2 k"
  shows "binade x < k"
proof (rule ccontr)
  assume "\<not> binade x < k"
  then have "pow2 k \<le> pow2 (binade x)" by (intro pow2_mono) simp
  with binade_bounds [OF assms(1)] assms(2) show False by simp
qed

lemma round_half_even_ge: "of_int n \<le> x \<Longrightarrow> n \<le> round_half_even x"
proof -
  assume "of_int n \<le> x"
  then have "n \<le> \<lfloor>x\<rfloor>" by (simp add: le_floor_iff)
  moreover have "\<lfloor>x\<rfloor> \<le> round_half_even x" by (simp add: round_half_even_def Let_def)
  ultimately show ?thesis by simp
qed

lemma round_half_even_le: "x \<le> of_int n \<Longrightarrow> round_half_even x \<le> n"
proof -
  assume x: "x \<le> of_int n"
  then have f: "\<lfloor>x\<rfloor> \<le> n" by (simp add: floor_le_iff)
  show ?thesis
  proof (cases "x = of_int \<lfloor>x\<rfloor>")
    case True
    then have "x - of_int \<lfloor>x\<rfloor> = 0" by simp
    then show ?thesis using f by (simp add: round_half_even_def Let_def)
  next
    case False
    then have "of_int \<lfloor>x\<rfloor> < x" using of_int_floor_le [of x] by linarith
    with x have "of_int \<lfloor>x\<rfloor> < (of_int n :: real)" by linarith
    then have "\<lfloor>x\<rfloor> < n" by simp
    then show ?thesis by (simp add: round_half_even_def Let_def)
  qed
qed

text \<open>Below \<open>2 ^ 53\<close> the spacing of the doubles is one over a power of two.\<close>

lemma ulp_small:
  assumes "x \<noteq> 0" "\<bar>x\<bar> < 2 ^ 53"
  shows "\<exists>m. pow2 (max (binade \<bar>x\<bar>) (- 1022) - 52) = 1 / 2 ^ m"
proof -
  have "\<bar>x\<bar> < pow2 53" using assms by (simp add: pow2_def)
  with assms have "binade \<bar>x\<bar> < 53" by (intro binade_less) simp_all
  then have e: "max (binade \<bar>x\<bar>) (- 1022) - 52 \<le> 0" by simp
  have "pow2 (max (binade \<bar>x\<bar>) (- 1022) - 52) =
          1 / 2 ^ nat (- (max (binade \<bar>x\<bar>) (- 1022) - 52))"
  proof (cases "max (binade \<bar>x\<bar>) (- 1022) - 52 = 0")
    case True
    then show ?thesis by (simp add: pow2_def)
  next
    case False
    with e show ?thesis by (simp add: pow2_def)
  qed
  then show ?thesis ..
qed

lemma to_double_between:
  assumes "of_int a \<le> x" "x \<le> of_int b" "- (2 ^ 53) < a" "b < 2 ^ 53"
  shows "of_int a \<le> to_double x \<and> to_double x \<le> of_int b"
proof (cases "x = 0")
  case True
  then show ?thesis using assms by (simp add: to_double_def)
next
  case False
  have "- (2 ^ 53) < (of_int a :: real)" using assms(3) by (metis of_int_less_iff of_int_minus of_int_numeral of_int_power)
  moreover have "(of_int b :: real) < 2 ^ 53" using assms(4) by (metis of_int_less_iff of_int_numeral of_int_power)
  ultimately have "\<bar>x\<bar> < 2 ^ 53" using assms(1,2) by linarith
  with False obtain m where u: "pow2 (max (binade \<bar>x\<bar>) (- 1022) - 52) = 1 / 2 ^ m"
    using ulp_small by blast
  have td: "to_double x = of_int (round_half_even (x * 2 ^ m)) / 2 ^ m"
    using False by (simp add: to_double_def Let_def u)
  have "of_int (a * 2 ^ m) \<le> x * 2 ^ m" using assms(1) by simp
  then have lo: "a * 2 ^ m \<le> round_half_even (x * 2 ^ m)" by (rule round_half_even_ge)
  have "x * 2 ^ m \<le> of_int (b * 2 ^ m)" using assms(2) by simp
  then have hi: "round_half_even (x * 2 ^ m) \<le> b * 2 ^ m" by (rule round_half_even_le)
  have "(of_int (a * 2 ^ m) :: real) \<le> of_int (round_half_even (x * 2 ^ m))"
    using lo by (simp only: of_int_le_iff)
  then have 1: "of_int a \<le> to_double x" unfolding td by (simp add: field_simps)
  have "(of_int (round_half_even (x * 2 ^ m)) :: real) \<le> of_int (b * 2 ^ m)"
    using hi by (simp only: of_int_le_iff)
  then have 2: "to_double x \<le> of_int b" unfolding td by (simp add: field_simps)
  from 1 2 show ?thesis ..
qed

lemma to_double_int:
  assumes "- (2 ^ 53) < n" "n < 2 ^ 53"
  shows "to_double (of_int n) = of_int n"
  using to_double_between [of n "of_int n" n] assms by simp

lemma pow2_less_cancel: "pow2 j < pow2 k \<Longrightarrow> j < k"
  using pow2_mono [of k j] by (cases "j < k") simp_all

lemma binade_unique:
  assumes "pow2 k \<le> x" "x < pow2 (k + 1)"
  shows "binade x = k"
proof -
  have x: "0 < x" using pow2_pos [of k] assms(1) by simp
  from binade_bounds [OF x] assms
  have "pow2 (binade x) < pow2 (k + 1)" "pow2 k < pow2 (binade x + 1)" by simp_all
  then have "binade x < k + 1" "k < binade x + 1" by (simp_all only: pow2_less_cancel)
  then show ?thesis by simp
qed

lemma pow2_add_nat: "pow2 (j + int n) = 2 ^ n * pow2 j"
proof (induction n)
  case 0
  show ?case by simp
next
  case (Suc n)
  have "j + int (Suc n) = (j + int n) + 1" by simp
  then have "pow2 (j + int (Suc n)) = 2 * pow2 (j + int n)" by (simp only: pow2_add1)
  then show ?case using Suc by simp
qed

lemma round_half_even_int: "round_half_even (of_int n) = n"
  by (simp add: round_half_even_def)

lemma round_half_even_error: "\<bar>of_int (round_half_even x) - x\<bar> \<le> 1 / 2"
proof -
  have "of_int \<lfloor>x\<rfloor> \<le> x" "x < of_int \<lfloor>x\<rfloor> + 1" by linarith+
  then show ?thesis by (auto simp add: round_half_even_def Let_def)
qed

text \<open>
  Rounding is to the nearest double: the error is at most half the spacing of the
  doubles around \<open>x\<close>.
\<close>

lemma to_double_nearest:
  assumes "x \<noteq> 0"
  shows "\<bar>to_double x - x\<bar> \<le> pow2 (max (binade \<bar>x\<bar>) (- 1022) - 52) / 2"
proof -
  define u where "u = pow2 (max (binade \<bar>x\<bar>) (- 1022) - 52)"
  have u: "0 < u" by (simp add: u_def pow2_pos)
  have "to_double x - x = (of_int (round_half_even (x / u)) - x / u) * u"
    using assms u by (simp add: to_double_def Let_def u_def [symmetric] algebra_simps)
  then have "\<bar>to_double x - x\<bar> = \<bar>of_int (round_half_even (x / u)) - x / u\<bar> * u"
    using u by (simp add: abs_mult)
  also have "\<dots> \<le> (1 / 2) * u"
    using round_half_even_error [of "x / u"] u by (intro mult_right_mono) simp_all
  finally show ?thesis by (simp add: u_def)
qed

text \<open>A multiple of the spacing of a binade at or above its own is a double.\<close>

lemma to_double_multiple:
  assumes y: "y = of_int m * pow2 (e - 52)" and "y \<noteq> 0"
    and e: "max (binade \<bar>y\<bar>) (- 1022) \<le> e"
  shows "to_double y = y"
proof -
  define e' where "e' = max (binade \<bar>y\<bar>) (- 1022)"
  define k where "k = nat (e - e')"
  have "e - 52 = (e' - 52) + int k" using e by (simp add: k_def e'_def)
  then have u: "pow2 (e - 52) = 2 ^ k * pow2 (e' - 52)" by (simp only: pow2_add_nat)
  have pos: "0 < pow2 (e' - 52)" by (rule pow2_pos)
  have "y / pow2 (e' - 52) = of_int (m * 2 ^ k)" using pos by (simp add: y u)
  then have "round_half_even (y / pow2 (e' - 52)) = m * 2 ^ k"
    by (simp only: round_half_even_int)
  then have "to_double y = of_int (m * 2 ^ k) * pow2 (e' - 52)"
    using assms(2) by (simp add: to_double_def Let_def e'_def)
  then show ?thesis by (simp add: y u)
qed

text \<open>Rounding a double leaves it as it is.\<close>

lemma to_double_idem: "to_double (to_double x) = to_double x"
proof (cases "to_double x = 0")
  case True
  then show ?thesis by (simp add: to_double_def)
next
  case nz: False
  then have x: "x \<noteq> 0" by (auto simp add: to_double_def)
  define e where "e = max (binade \<bar>x\<bar>) (- 1022)"
  define u where "u = pow2 (e - 52)"
  define m where "m = round_half_even (x / u)"
  have u: "0 < u" by (simp add: u_def pow2_pos)
  have y: "to_double x = of_int m * u" using x by (simp add: to_double_def Let_def e_def u_def m_def)
  have "e + 1 = (e - 52) + int 53" by simp
  then have top: "pow2 (e + 1) = 2 ^ 53 * u" unfolding u_def by (simp only: pow2_add_nat)
  have "\<bar>x\<bar> < pow2 (binade \<bar>x\<bar> + 1)" using binade_bounds [of "\<bar>x\<bar>"] x by simp
  also have "\<dots> \<le> pow2 (e + 1)" by (intro pow2_mono) (simp add: e_def)
  finally have "\<bar>x\<bar> < 2 ^ 53 * u" by (simp only: top)
  then have "\<bar>x / u\<bar> < 2 ^ 53" using u by (simp add: abs_mult pos_divide_less_eq abs_of_pos)
  then have "x / u \<le> 2 ^ 53" "- (2 ^ 53) \<le> x / u" by linarith+
  then have "x / u \<le> of_int (2 ^ 53)" "of_int (- (2 ^ 53)) \<le> x / u" by simp_all
  then have m: "m \<le> 2 ^ 53" "- (2 ^ 53) \<le> m"
    unfolding m_def by (simp_all only: round_half_even_le round_half_even_ge)
  have ay: "\<bar>to_double x\<bar> = of_int \<bar>m\<bar> * u" using u by (simp add: y abs_mult)
  show ?thesis
  proof (cases "\<bar>m\<bar> = 2 ^ 53")
    case True
    then have "\<bar>to_double x\<bar> = pow2 (e + 1)" by (simp add: ay top)
    moreover have "pow2 (e + 1) < pow2 (e + 1 + 1)"
      using pow2_add1 [of "e + 1"] pow2_pos [of "e + 1"] by simp
    ultimately have "binade \<bar>to_double x\<bar> = e + 1" by (intro binade_unique) simp_all
    moreover have "- 1022 \<le> e" by (simp add: e_def)
    ultimately have b: "max (binade \<bar>to_double x\<bar>) (- 1022) \<le> e + 1" by simp
    have "m = 2 ^ 53 \<or> m = - (2 ^ 53)" using True by linarith
    then have "m = 2 * (m div 2)" by auto
    then have "of_int m * u = of_int (m div 2) * (2 * u)"
      by (metis of_int_mult of_int_numeral mult.assoc mult.commute)
    also have "2 * u = pow2 (e + 1 - 52)"
    proof -
      have "e + 1 - 52 = (e - 52) + 1" by simp
      then show ?thesis unfolding u_def by (simp only: pow2_add1)
    qed
    finally have "to_double x = of_int (m div 2) * pow2 (e + 1 - 52)" by (simp only: y)
    from to_double_multiple [OF this nz b] show ?thesis .
  next
    case False
    with m have "\<bar>m\<bar> < 2 ^ 53" by simp
    then have "(of_int \<bar>m\<bar> :: real) < 2 ^ 53" by (metis of_int_less_iff of_int_numeral of_int_power)
    then have "\<bar>to_double x\<bar> < pow2 (e + 1)" using u by (simp add: ay top)
    moreover have "0 < \<bar>to_double x\<bar>" using nz by simp
    ultimately have "binade \<bar>to_double x\<bar> < e + 1" by (rule binade_less [rotated])
    moreover have "- 1022 \<le> e" by (simp add: e_def)
    ultimately have b: "max (binade \<bar>to_double x\<bar>) (- 1022) \<le> e" by simp
    from y have "to_double x = of_int m * pow2 (e - 52)" by (simp only: u_def)
    from to_double_multiple [OF this nz b] show ?thesis .
  qed
qed

subsection \<open>Packing and blending\<close>

lemma dbl_add_int:
  assumes "- (2 ^ 53) < a + b" "a + b < 2 ^ 53"
  shows "dbl_add (of_int a) (of_int b) = of_int (a + b)"
  using to_double_int [OF assms] by (simp add: dbl_add_def)

lemma rgbToHex_channels:
  assumes "0 \<le> r" "r \<le> 255" "0 \<le> g" "g \<le> 255" "0 \<le> b" "b \<le> 255"
  shows "rgbToHex r g b =
           CHR ''#'' # two_hex_digits (nat \<lfloor>r\<rfloor>) @ two_hex_digits (nat \<lfloor>g\<rfloor>)
             @ two_hex_digits (nat \<lfloor>b\<rfloor>)"
proof -
  define R G B where "R = nat \<lfloor>r\<rfloor>" and "G = nat \<lfloor>g\<rfloor>" and "B = nat \<lfloor>b\<rfloor>"
  define N where "N = 16777216 + R * 65536 + G * 256 + B"
  have fl: "\<lfloor>r\<rfloor> = int R" "\<lfloor>g\<rfloor> = int G" "\<lfloor>b\<rfloor> = int B"
    using assms by (simp_all add: R_def G_def B_def)
  have le: "R \<le> 255" "G \<le> 255" "B \<le> 255"
    using assms by (simp_all add: R_def G_def B_def nat_le_iff floor_le_iff)
  have s1: "shl32 1 24 = 16777216" by (simp add: shl32_small)
  have s2: "shl32 (int R) 16 = int R * 65536" using le by (simp add: shl32_small)
  have s3: "shl32 (int G) 8 = int G * 256" using le by (simp add: shl32_small)
  have a1: "dbl_add (of_int (shl32 1 24)) (of_int (shl32 \<lfloor>r\<rfloor> 16)) =
              of_int (16777216 + int R * 65536)"
    unfolding fl s1 s2 using le by (intro dbl_add_int) simp_all
  have a2: "dbl_add (of_int (16777216 + int R * 65536)) (of_int (shl32 \<lfloor>g\<rfloor> 8)) =
              of_int (16777216 + int R * 65536 + int G * 256)"
    unfolding fl s3 using le by (intro dbl_add_int) simp_all
  have a3: "dbl_add (of_int (16777216 + int R * 65536 + int G * 256)) (of_int \<lfloor>b\<rfloor>) =
              of_int (16777216 + int R * 65536 + int G * 256 + int B)"
    unfolding fl using le by (intro dbl_add_int) simp_all
  have "(16777216 + int R * 65536 + int G * 256 + int B) = int N" by (simp add: N_def)
  then have sum: "\<lfloor>dbl_add (dbl_add (dbl_add (of_int (shl32 1 24)) (of_int (shl32 \<lfloor>r\<rfloor> 16)))
                            (of_int (shl32 \<lfloor>g\<rfloor> 8))) (of_int \<lfloor>b\<rfloor>)\<rfloor> = int N"
    by (simp only: a1 a2 a3 floor_of_int)
  have "toString16 (int N) = hex_digits N"
    by (simp add: toString16_def del: hex_digits.simps)
  then have "rgbToHex r g b = ''#'' @ drop 1 (hex_digits N)"
    by (simp only: rgbToHex_def sum)
  also have "hex_digits N = hex_char 1 # two_hex_digits R @ two_hex_digits G @ two_hex_digits B"
    unfolding N_def by (rule hex_digits_colour [OF le])
  finally show ?thesis by (simp add: R_def G_def B_def)
qed

text \<open>
  One channel of the blend: with a speed between \<open>0\<close> and \<open>1\<close> the rounded result lies
  between the current and the target channel.
\<close>

lemma blend_between:
  fixes C T :: nat
  assumes "C \<le> 255" "T \<le> 255" "0 \<le> s" "s \<le> 1"
  shows "real (min C T) \<le> dbl_add (real C) (dbl_mul (dbl_sub (real T) (real C)) s) \<and>
         dbl_add (real C) (dbl_mul (dbl_sub (real T) (real C)) s) \<le> real (max C T)"
proof -
  define d where "d = int T - int C"
  define p where "p = dbl_mul (of_int d) s"
  have "real T - real C = of_int d" by (simp add: d_def)
  moreover have "to_double (of_int d) = of_int d"
    using assms by (intro to_double_int) (simp_all add: d_def)
  ultimately have sub: "dbl_sub (real T) (real C) = of_int d" by (simp add: dbl_sub_def)
  show ?thesis
  proof (cases "C \<le> T")
    case True
    then have d0: "0 \<le> d" by (simp add: d_def)
    then have "of_int 0 \<le> of_int d * s \<and> of_int d * s \<le> of_int d"
      using assms by (simp add: mult_left_le)
    then have "of_int 0 \<le> to_double (of_int d * s) \<and> to_double (of_int d * s) \<le> of_int d"
      using assms by (intro to_double_between) (simp_all add: d_def)
    then have p: "0 \<le> p \<and> p \<le> of_int d" by (simp add: p_def dbl_mul_def)
    then have "of_int (int C) \<le> real C + p \<and> real C + p \<le> of_int (int T)"
      by (simp add: d_def)
    then have "of_int (int C) \<le> to_double (real C + p) \<and> to_double (real C + p) \<le> of_int (int T)"
      using assms by (intro to_double_between) simp_all
    then show ?thesis using True unfolding sub p_def [symmetric] by (simp add: dbl_add_def)
  next
    case False
    then have d0: "d \<le> 0" by (simp add: d_def)
    then have "(of_int d :: real) \<le> 0" by simp
    then have "of_int d * (1 - s) \<le> 0" "of_int d * s \<le> 0"
      using assms by (simp_all add: mult_nonpos_nonneg)
    then have "of_int d \<le> of_int d * s \<and> of_int d * s \<le> of_int 0"
      by (simp add: algebra_simps)
    then have "of_int d \<le> to_double (of_int d * s) \<and> to_double (of_int d * s) \<le> of_int 0"
      using assms by (intro to_double_between) (simp_all add: d_def)
    then have p: "of_int d \<le> p \<and> p \<le> 0" by (simp add: p_def dbl_mul_def)
    then have "of_int (int T) \<le> real C + p \<and> real C + p \<le> of_int (int C)"
      by (simp add: d_def)
    then have "of_int (int T) \<le> to_double (real C + p) \<and> to_double (real C + p) \<le> of_int (int C)"
      using assms by (intro to_double_between) simp_all
    then show ?thesis using False unfolding sub p_def [symmetric] by (simp add: dbl_add_def)
  qed
qed

text \<open>
  C9.  \<open>hexToRgb\<close> returns a value on every string, and on every string that is not
  exactly six hexadecimal digits with an optional leading \<open>#\<close> that value is white,
  \<open>{r: 255, g: 255, b: 255}\<close>.  Consequently, for any two strings as current and
  target colour, malformed or not, and a transition speed between \<open>0\<close> and \<open>1\<close> (the
  controller passes \<open>0.02\<close>), every channel that \<open>transitionColor\<close> computes, in
  doubles, has an integer part between \<open>0\<close> and \<open>255\<close>, and the result is \<open>#\<close> followed
  by the two hexadecimal digits of each of the three integer parts: a string that
  \<open>hexToRgb\<close> itself accepts.
\<close>

theorem hexToRgb_fallback_transitionColor_wellformed:
  "(\<not> is_hex_colour hex \<longrightarrow> hexToRgb hex = \<lparr>rgb_r = 255, rgb_g = 255, rgb_b = 255\<rparr>) \<and>
   (0 \<le> speed \<and> speed \<le> 1 \<longrightarrow>
      (let c = hexToRgb currentColor;
           t = hexToRgb targetColor;
           s = to_double speed;
           r = \<lfloor>dbl_add (rgb_r c) (dbl_mul (dbl_sub (rgb_r t) (rgb_r c)) s)\<rfloor>;
           g = \<lfloor>dbl_add (rgb_g c) (dbl_mul (dbl_sub (rgb_g t) (rgb_g c)) s)\<rfloor>;
           b = \<lfloor>dbl_add (rgb_b c) (dbl_mul (dbl_sub (rgb_b t) (rgb_b c)) s)\<rfloor>
       in 0 \<le> r \<and> r \<le> 255 \<and> 0 \<le> g \<and> g \<le> 255 \<and> 0 \<le> b \<and> b \<le> 255 \<and>
          transitionColor currentColor targetColor speed =
            CHR ''#'' # two_hex_digits (nat r) @ two_hex_digits (nat g) @ two_hex_digits (nat b) \<and>
          is_hex_colour (transitionColor currentColor targetColor speed)))"
proof (intro conjI impI)
  assume "\<not> is_hex_colour hex"
  then show "hexToRgb hex = \<lparr>rgb_r = 255, rgb_g = 255, rgb_b = 255\<rparr>" by (rule hexToRgb_fallback)
next
  assume sp: "0 \<le> speed \<and> speed \<le> 1"
  define c t s where "c = hexToRgb currentColor" and "t = hexToRgb targetColor"
    and "s = to_double speed"
  define newR newG newB
    where "newR = dbl_add (rgb_r c) (dbl_mul (dbl_sub (rgb_r t) (rgb_r c)) s)"
      and "newG = dbl_add (rgb_g c) (dbl_mul (dbl_sub (rgb_g t) (rgb_g c)) s)"
      and "newB = dbl_add (rgb_b c) (dbl_mul (dbl_sub (rgb_b t) (rgb_b c)) s)"
  have "of_int 0 \<le> to_double speed \<and> to_double speed \<le> of_int 1"
    using sp by (intro to_double_between) simp_all
  then have s: "0 \<le> s" "s \<le> 1" by (simp_all add: s_def)
  obtain cR cG cB :: nat where c: "cR \<le> 255" "cG \<le> 255" "cB \<le> 255"
    "c = \<lparr>rgb_r = real cR, rgb_g = real cG, rgb_b = real cB\<rparr>"
    using hexToRgb_whole [of currentColor] unfolding c_def by blast
  obtain tR tG tB :: nat where t: "tR \<le> 255" "tG \<le> 255" "tB \<le> 255"
    "t = \<lparr>rgb_r = real tR, rgb_g = real tG, rgb_b = real tB\<rparr>"
    using hexToRgb_whole [of targetColor] unfolding t_def by blast
  have "real (min cR tR) \<le> newR \<and> newR \<le> real (max cR tR)"
    unfolding newR_def using blend_between [OF c(1) t(1) s] by (simp add: c(4) t(4))
  then have nr: "0 \<le> newR" "newR \<le> 255" using c(1) t(1) by linarith+
  have "real (min cG tG) \<le> newG \<and> newG \<le> real (max cG tG)"
    unfolding newG_def using blend_between [OF c(2) t(2) s] by (simp add: c(4) t(4))
  then have ng: "0 \<le> newG" "newG \<le> 255" using c(2) t(2) by linarith+
  have "real (min cB tB) \<le> newB \<and> newB \<le> real (max cB tB)"
    unfolding newB_def using blend_between [OF c(3) t(3) s] by (simp add: c(4) t(4))
  then have nb: "0 \<le> newB" "newB \<le> 255" using c(3) t(3) by linarith+
  have fl: "0 \<le> \<lfloor>newR\<rfloor>" "\<lfloor>newR\<rfloor> \<le> 255" "0 \<le> \<lfloor>newG\<rfloor>" "\<lfloor>newG\<rfloor> \<le> 255"
    "0 \<le> \<lfloor>newB\<rfloor>" "\<lfloor>newB\<rfloor> \<le> 255"
    using nr ng nb by (simp_all add: floor_le_iff)
  have tc: "transitionColor currentColor targetColor speed = rgbToHex newR newG newB"
    by (simp add: transitionColor_def Let_def c_def t_def s_def newR_def newG_def newB_def)
  have str: "transitionColor currentColor targetColor speed =
      CHR ''#'' # two_hex_digits (nat \<lfloor>newR\<rfloor>) @ two_hex_digits (nat \<lfloor>newG\<rfloor>)
        @ two_hex_digits (nat \<lfloor>newB\<rfloor>)"
    unfolding tc using nr ng nb by (intro rgbToHex_channels)
  have cls: "list_all hex_class (two_hex_digits (nat \<lfloor>newR\<rfloor>))"
    "list_all hex_class (two_hex_digits (nat \<lfloor>newG\<rfloor>))"
    "list_all hex_class (two_hex_digits (nat \<lfloor>newB\<rfloor>))"
    using fl by (simp_all add: two_hex_digits_class nat_le_iff)
  have len: "length (two_hex_digits n) = 2" for n by (simp add: two_hex_digits_def)
  have wf: "is_hex_colour (transitionColor currentColor targetColor speed)"
    unfolding str using cls by (simp add: is_hex_colour_def len)
  show "let c = hexToRgb currentColor;
           t = hexToRgb targetColor;
           s = to_double speed;
           r = \<lfloor>dbl_add (rgb_r c) (dbl_mul (dbl_sub (rgb_r t) (rgb_r c)) s)\<rfloor>;
           g = \<lfloor>dbl_add (rgb_g c) (dbl_mul (dbl_sub (rgb_g t) (rgb_g c)) s)\<rfloor>;
           b = \<lfloor>dbl_add (rgb_b c) (dbl_mul (dbl_sub (rgb_b t) (rgb_b c)) s)\<rfloor>
       in 0 \<le> r \<and> r \<le> 255 \<and> 0 \<le> g \<and> g \<le> 255 \<and> 0 \<le> b \<and> b \<le> 255 \<and>
          transitionColor currentColor targetColor speed =
            CHR ''#'' # two_hex_digits (nat r) @ two_hex_digits (nat g) @ two_hex_digits (nat b) \<and>
          is_hex_colour (transitionColor currentColor targetColor speed)"
    unfolding Let_def c_def [symmetric] t_def [symmetric] s_def [symmetric]
      newR_def [symmetric] newG_def [symmetric] newB_def [symmetric]
    using fl str wf by simp
qed

text \<open>
  The theorem on a string of five digits, and on a transition, at the controller's
  speed, from the default background colour towards a target that is no colour.
\<close>

theorem hexToRgb_fallback_transitionColor_wellformed_witness:
  "\<not> is_hex_colour ''#12345'' \<and>
   hexToRgb ''#12345'' = \<lparr>rgb_r = 255, rgb_g = 255, rgb_b = 255\<rparr> \<and>
   (0 :: real) \<le> 0.02 \<and> (0.02 :: real) \<le> 1 \<and>
   is_hex_colour (transitionColor ''#0a0a12'' ''none'' 0.02)"
proof -
  have h1: "\<not> is_hex_colour ''#12345''" by (simp add: is_hex_colour_def hex_class_def)
  have h2: "(0 :: real) \<le> 0.02 \<and> (0.02 :: real) \<le> 1" by simp
  from hexToRgb_fallback_transitionColor_wellformed
         [of "''#12345''" "0.02" "''#0a0a12''" "''none''"] h1 h2
  show ?thesis unfolding Let_def by blast
qed

text \<open>
  The claim as stated, which puts no condition on the speed, fails outside that range
  of speeds.  From black towards white at speed \<open>- 1\<close> every channel is \<open>- 255\<close>, the
  packed number is \<open>2 ^ 24 - 255 * 65536 - 255 * 256 - 255 = 1\<close>, its base-16
  rendering is the single digit that \<open>slice(1)\<close> drops, and the result is \<open>#\<close> alone.
\<close>

theorem negative_speed_counterexample:
  "transitionColor ''#000000'' ''#ffffff'' (- 1) = ''#'' \<and>
   \<not> is_hex_colour (transitionColor ''#000000'' ''#ffffff'' (- 1))"
proof -
  have black: "hexToRgb ''#000000'' = \<lparr>rgb_r = 0, rgb_g = 0, rgb_b = 0\<rparr>"
    by (simp add: hexToRgb_def regex_exec_def hex_class_def parseInt16_def digit_value_def)
  have white: "hexToRgb ''#ffffff'' = \<lparr>rgb_r = 255, rgb_g = 255, rgb_b = 255\<rparr>"
    by (simp add: hexToRgb_def regex_exec_def hex_class_def parseInt16_def digit_value_def)
  have r: "to_double (- 1) = - 1" "to_double 255 = 255" "to_double (- 255) = - 255"
    "to_double 65536 = 65536" "to_double 256 = 256" "to_double 1 = 1"
    using to_double_int [of "- 1"] to_double_int [of 255] to_double_int [of "- 255"]
      to_double_int [of 65536] to_double_int [of 256] to_double_int [of 1]
    by simp_all
  have s: "shl32 1 24 = 16777216" "shl32 (- 255) 16 = - 16711680" "shl32 (- 255) 8 = - 65280"
    by (simp_all add: shl32_def)
  have "transitionColor ''#000000'' ''#ffffff'' (- 1) = rgbToHex (- 255) (- 255) (- 255)"
    by (simp add: transitionColor_def Let_def black white dbl_add_def dbl_sub_def dbl_mul_def r)
  also have "\<dots> = ''#'' @ drop 1 (toString16 1)"
    by (simp add: rgbToHex_def dbl_add_def r s)
  also have "\<dots> = ''#''"
    by (simp add: toString16_def)
  finally have "transitionColor ''#000000'' ''#ffffff'' (- 1) = ''#''" .
  then show ?thesis by (simp add: is_hex_colour_def)
qed

text \<open>
  Rounding shows in the result: from black towards \<open>#640000\<close> at speed \<open>0.57\<close> the red
  channel is \<open>100 * 0.57\<close>, which in doubles is just below \<open>57\<close>, and the result has
  red \<open>56\<close>, in base 16 \<open>38\<close>.
\<close>

lemma transitionColor_rounds:
  "transitionColor ''#000000'' ''#640000'' 0.57 = ''#380000''"
proof -
  have black: "hexToRgb ''#000000'' = \<lparr>rgb_r = 0, rgb_g = 0, rgb_b = 0\<rparr>"
    by (simp add: hexToRgb_def regex_exec_def hex_class_def parseInt16_def digit_value_def)
  have target: "hexToRgb ''#640000'' = \<lparr>rgb_r = 100, rgb_g = 0, rgb_b = 0\<rparr>"
    by (simp add: hexToRgb_def regex_exec_def hex_class_def parseInt16_def digit_value_def)
  have sp: "to_double 0.57 = 5134103575202365 / 2 ^ 53"
    by (simp add: to_double_def binade.simps pow2_def round_half_even_def Let_def)
  have p: "to_double (100 * (5134103575202365 / 2 ^ 53)) = 8022036836253695 / 2 ^ 47"
    by (simp add: to_double_def binade.simps pow2_def round_half_even_def Let_def)
  have q: "to_double (8022036836253695 / 2 ^ 47) = 8022036836253695 / 2 ^ 47"
    by (simp add: to_double_def binade.simps pow2_def round_half_even_def Let_def)
  have z: "to_double 0 = 0" by (simp add: to_double_def)
  have d: "to_double 100 = 100" using to_double_int [of 100] by simp
  have red: "dbl_add 0 (dbl_mul (dbl_sub 100 0) (to_double 0.57)) = 8022036836253695 / 2 ^ 47"
    unfolding dbl_add_def dbl_mul_def dbl_sub_def sp by (simp only: diff_zero d p add_0 q)
  have rest: "dbl_add 0 (dbl_mul (dbl_sub 0 0) (to_double 0.57)) = 0"
    unfolding dbl_add_def dbl_mul_def dbl_sub_def by (simp add: z)
  have "transitionColor ''#000000'' ''#640000'' 0.57 = rgbToHex (8022036836253695 / 2 ^ 47) 0 0"
    unfolding transitionColor_def Let_def black target by (simp only: rgb.simps red rest)
  moreover have "0 \<le> (8022036836253695 / 2 ^ 47 :: real)" "(8022036836253695 / 2 ^ 47 :: real) \<le> 255"
    by simp_all
  moreover have "\<lfloor>8022036836253695 / 2 ^ 47 :: real\<rfloor> = 56" by (simp add: floor_eq_iff)
  ultimately have "transitionColor ''#000000'' ''#640000'' 0.57 =
      CHR ''#'' # two_hex_digits 56 @ two_hex_digits 0 @ two_hex_digits 0"
    using rgbToHex_channels [of "8022036836253695 / 2 ^ 47" 0 0] by simp
  then show ?thesis by (simp add: two_hex_digits_def hex_char_def)
qed

section \<open>Ball: the constructor\<close>

text \<open>
  C10.  When the constructor is given \<open>options.dx\<close> and \<open>options.dy\<close>, an
  \<open>options.x\<close> of \<open>0\<close> is not honoured: the ball starts at \<open>canvas.width / 2\<close>; likewise
  an \<open>options.y\<close> of \<open>0\<close> gives \<open>canvas.height / 2\<close>.  So on a canvas of nonzero width
  and height an explicit-position spawn never places the ball at coordinate \<open>0\<close> on
  either axis.
\<close>

theorem new_Ball_zero_coordinate_not_honoured:
  "opt_dx opts = Some vx \<Longrightarrow> opt_dy opts = Some vy \<Longrightarrow>
   (let b = new_Ball cv gp upd opts sm rd
    in (opt_x opts = Some 0 \<longrightarrow> ball_x b = canvas_width cv / 2) \<and>
       (opt_y opts = Some 0 \<longrightarrow> ball_y b = canvas_height cv / 2) \<and>
       (canvas_width cv \<noteq> 0 \<longrightarrow> ball_x b \<noteq> 0) \<and>
       (canvas_height cv \<noteq> 0 \<longrightarrow> ball_y b \<noteq> 0) \<and>
       ball_dx b = vx \<and> ball_dy b = vy)"
  by (auto simp add: new_Ball_def opt_or_def num_or_def Let_def split: option.splits)

text \<open>The theorem on a spawn at \<open>(0, 0)\<close> on the reference canvas: the ball starts at \<open>(400, 240)\<close>.\<close>

theorem new_Ball_zero_coordinate_not_honoured_witness:
  "opt_dx \<lparr>opt_x = Some 0, opt_y = Some 0, opt_dx = Some 3, opt_dy = Some (- 1)\<rparr> = Some 3 \<and>
   opt_dy \<lparr>opt_x = Some 0, opt_y = Some 0, opt_dx = Some 3, opt_dy = Some (- 1)\<rparr> = Some (- 1) \<and>
   ball_x (new_Ball \<lparr>canvas_width = 800, canvas_height = 480\<rparr> defaultParams True
             \<lparr>opt_x = Some 0, opt_y = Some 0, opt_dx = Some 3, opt_dy = Some (- 1)\<rparr>
             True no_draws) = 400 \<and>
   ball_y (new_Ball \<lparr>canvas_width = 800, canvas_height = 480\<rparr> defaultParams True
             \<lparr>opt_x = Some 0, opt_y = Some 0, opt_dx = Some 3, opt_dy = Some (- 1)\<rparr>
             True no_draws) = 240"
  using new_Ball_zero_coordinate_not_honoured
          [of "\<lparr>opt_x = Some 0, opt_y = Some 0, opt_dx = Some 3, opt_dy = Some (- 1)\<rparr>" 3 "- 1"
              "\<lparr>canvas_width = 800, canvas_height = 480\<rparr>" defaultParams True True no_draws]
  by (simp add: Let_def)

text \<open>
  The claim as stated fails on a canvas of size zero, where \<open>canvas.width / 2\<close> and
  \<open>canvas.height / 2\<close> are themselves \<open>0\<close>: the same spawn at \<open>(0, 0)\<close> leaves the
  ball at \<open>(0, 0)\<close>.
\<close>

theorem zero_canvas_counterexample:
  "ball_x (new_Ball \<lparr>canvas_width = 0, canvas_height = 0\<rparr> defaultParams True
             \<lparr>opt_x = Some 0, opt_y = Some 0, opt_dx = Some 3, opt_dy = Some (- 1)\<rparr>
             True no_draws) = 0 \<and>
   ball_y (new_Ball \<lparr>canvas_width = 0, canvas_height = 0\<rparr> defaultParams True
             \<lparr>opt_x = Some 0, opt_y = Some 0, opt_dx = Some 3, opt_dy = Some (- 1)\<rparr>
             True no_draws) = 0"
  by (simp add: new_Ball_def opt_or_def num_or_def Let_def)

end
